theory Spec2Isabelle
  imports Main "HOL-Library.Word"
begin

section \<open>Values of the program\<close>

text \<open>
  A Node \<open>Buffer\<close> is a list of bytes. A JavaScript string is a list of characters, one
  per code unit, so that \<open>length\<close> is the \<open>.length\<close> of the source. A thrown
  \<open>Error\<close> carries its \<open>message\<close>. The diagnostics of the DOCX library are objects
  with a \<open>type\<close> and a \<open>message\<close>.
\<close>

type_synonym byte = "8 word"
type_synonym bytes = "byte list"

datatype error = Error (message: string)

record diagnostic =
  type_d :: string
  message_d :: string

datatype console_entry =
    ConsoleLog string "diagnostic list"
  | ConsoleWarn string error
  | ConsoleError string error

text \<open>
  The state a call can change: the directories and the files of the file system, and
  what has been printed on the console.
\<close>

record world =
  dirs :: "string set"
  files :: "string \<rightharpoonup> bytes"
  console :: "console_entry list"

text \<open>An awaited operation: it changes the world and either throws or returns.\<close>

type_synonym 'a io = "world \<Rightarrow> world \<times> (error + 'a)"

definition return_io :: "'a \<Rightarrow> 'a io" where
  "return_io x w = (w, Inr x)"

definition throw_io :: "error \<Rightarrow> 'a io" where
  "throw_io e w = (w, Inl e)"

definition bind_io :: "'a io \<Rightarrow> ('a \<Rightarrow> 'b io) \<Rightarrow> 'b io" where
  "bind_io m f w = (case m w of (w', Inl e) \<Rightarrow> (w', Inl e) | (w', Inr x) \<Rightarrow> f x w')"

text \<open>\<open>try { m } catch (error) { h error }\<close>.\<close>

definition try_catch :: "'a io \<Rightarrow> (error \<Rightarrow> 'a io) \<Rightarrow> 'a io" where
  "try_catch m h w = (case m w of (w', Inl e) \<Rightarrow> h e w' | (w', Inr x) \<Rightarrow> (w', Inr x))"

definition console_log :: "string \<Rightarrow> diagnostic list \<Rightarrow> unit io" where
  "console_log s ms w = (w\<lparr>console := console w @ [ConsoleLog s ms]\<rparr>, Inr ())"

definition console_warn :: "string \<Rightarrow> error \<Rightarrow> unit io" where
  "console_warn s e w = (w\<lparr>console := console w @ [ConsoleWarn s e]\<rparr>, Inr ())"

definition console_error :: "string \<Rightarrow> error \<Rightarrow> unit io" where
  "console_error s e w = (w\<lparr>console := console w @ [ConsoleError s e]\<rparr>, Inr ())"

section \<open>Strings\<close>

fun startsWith :: "string \<Rightarrow> string \<Rightarrow> bool" where
  "startsWith s [] = True"
| "startsWith [] (c # cs) = False"
| "startsWith (x # xs) (c # cs) = (x = c \<and> startsWith xs cs)"

definition endsWith :: "string \<Rightarrow> string \<Rightarrow> bool" where
  "endsWith s t = startsWith (rev s) (rev t)"

text \<open>\<open>s.includes(t)\<close>: \<open>t\<close> occurs in \<open>s\<close> as a substring.\<close>

fun includes_str :: "string \<Rightarrow> string \<Rightarrow> bool" where
  "includes_str [] t = (t = [])"
| "includes_str (x # xs) t = (startsWith (x # xs) t \<or> includes_str xs t)"

text \<open>
  A string written to a file is stored as its UTF-8 bytes: a code unit below \<open>0x80\<close> is
  one byte, and the others a character of this model can hold (up to \<open>0xFF\<close>) are two.
\<close>

definition utf8_unit :: "char \<Rightarrow> bytes" where
  "utf8_unit c =
     (let n = (of_char c :: nat)
      in if n < 128 then [of_nat n] else [of_nat (192 + n div 64), of_nat (128 + n mod 64)])"

definition encode_str :: "string \<Rightarrow> bytes" where
  "encode_str s = concat (map utf8_unit s)"

section \<open>The environment\<close>

text \<open>
  The libraries the program delegates to are parameters of the model: each awaited call
  of the source is a field that, in a given world, either fails with an error or
  succeeds. \<open>mkdtemp_name\<close> is the unique directory the file system picks for a prefix;
  the \<open>_fault\<close> fields are the failures of the file system (permissions, disk space).
  \<open>page_evaluate_header\<close> and \<open>page_evaluate_footer\<close> are the two scripts the source
  evaluates in the page (the \<open>offsetHeight\<close> of the \<open>.header\<close> and \<open>.footer\<close> element,
  0 when there is none); \<open>page_pdf\<close> is the PDF the browser renders.
\<close>

record margin_opts =
  top :: "string option"
  right :: "string option"
  bottom :: "string option"
  left :: "string option"

record pageConfig_opts =
  format :: "string option"
  margin :: "margin_opts option"

record formatOptions =
  pageConfig :: "pageConfig_opts option"
  preserveHeaders :: "bool option"

record options =
  returnType :: "string option"
  outputDir :: "string option"

record margins =
  m_top :: string
  m_right :: string
  m_bottom :: string
  m_left :: string

record finalPageConfig =
  f_format :: string
  f_margin :: margins

record mammoth_options =
  path_o :: string
  styleMap :: "string list"

record pdf_options =
  pdf_path :: string
  pdf_format :: string
  pdf_margin :: margins
  printBackground :: bool
  displayHeaderFooter :: bool
  headerTemplate :: string
  footerTemplate :: string

record env =
  os_tmpdir :: string
  mkdtemp_name :: "world \<Rightarrow> string \<Rightarrow> error + string"
  writeFile_fault :: "world \<Rightarrow> string \<Rightarrow> error option"
  readFile_fault :: "world \<Rightarrow> string \<Rightarrow> error option"
  rm_fault :: "world \<Rightarrow> string \<Rightarrow> error option"
  mammoth_convertToHtml :: "world \<Rightarrow> mammoth_options \<Rightarrow> error + (string \<times> diagnostic list)"
  mammoth_extractRawText :: "world \<Rightarrow> string \<Rightarrow> error + (string \<times> diagnostic list)"
  puppeteer_launch :: "world \<Rightarrow> error option"
  browser_newPage :: "world \<Rightarrow> error option"
  page_goto :: "world \<Rightarrow> string \<Rightarrow> error option"
  page_evaluate_header :: "world \<Rightarrow> string \<Rightarrow> error + nat"
  page_evaluate_footer :: "world \<Rightarrow> string \<Rightarrow> error + nat"
  page_pdf :: "world \<Rightarrow> string \<Rightarrow> pdf_options \<Rightarrow> error + bytes"
  browser_close :: "world \<Rightarrow> error option"

text \<open>An operation that only fails or succeeds, and one that returns a value.\<close>

definition attempt :: "(world \<Rightarrow> error option) \<Rightarrow> unit io" where
  "attempt f w = (case f w of Some e \<Rightarrow> (w, Inl e) | None \<Rightarrow> (w, Inr ()))"

definition ask :: "(world \<Rightarrow> error + 'a) \<Rightarrow> 'a io" where
  "ask f w = (w, f w)"

section \<open>The file system\<close>

text \<open>\<open>q\<close> is \<open>p\<close> or lies below the directory \<open>p\<close>.\<close>

definition under :: "string \<Rightarrow> string \<Rightarrow> bool" where
  "under p q = (q = p \<or> startsWith q (p @ ''/''))"

text \<open>\<open>fs.mkdtemp(prefix)\<close>: creates the directory and returns its path.\<close>

definition fs_mkdtemp :: "env \<Rightarrow> string \<Rightarrow> string io" where
  "fs_mkdtemp E prefix w =
     (case mkdtemp_name E w prefix of
        Inl e \<Rightarrow> (w, Inl e)
      | Inr d \<Rightarrow> (w\<lparr>dirs := insert d (dirs w)\<rparr>, Inr d))"

text \<open>\<open>fs.writeFile(p, data)\<close>.\<close>

definition fs_writeFile :: "env \<Rightarrow> string \<Rightarrow> bytes \<Rightarrow> unit io" where
  "fs_writeFile E p data w =
     (case writeFile_fault E w p of
        Some e \<Rightarrow> (w, Inl e)
      | None \<Rightarrow> (w\<lparr>files := (files w)(p \<mapsto> data)\<rparr>, Inr ()))"

text \<open>\<open>fs.readFile(p)\<close>: the bytes of the file; a missing file is an error.\<close>

definition fs_readFile :: "env \<Rightarrow> string \<Rightarrow> bytes io" where
  "fs_readFile E p w =
     (case readFile_fault E w p of
        Some e \<Rightarrow> (w, Inl e)
      | None \<Rightarrow>
          (case files w p of
             None \<Rightarrow> (w, Inl (Error (''ENOENT: no such file or directory, open '' @ p)))
           | Some b \<Rightarrow> (w, Inr b)))"

text \<open>\<open>fs.rm(p, { recursive: true, force: true })\<close>: removes \<open>p\<close> and all below it.\<close>

definition fs_rm :: "env \<Rightarrow> string \<Rightarrow> unit io" where
  "fs_rm E p w =
     (case rm_fault E w p of
        Some e \<Rightarrow> (w, Inl e)
      | None \<Rightarrow>
          (w\<lparr>dirs := Set.filter (\<lambda>q. \<not> under p q) (dirs w),
             files := (\<lambda>q. if under p q then None else files w q)\<rparr>, Inr ()))"

section \<open>The path module\<close>

text \<open>
  \<open>path.join\<close>, \<open>path.normalize\<close> and \<open>path.basename\<close> of Node, on POSIX paths. A path
  is split at its slashes; normalising drops the empty and the \<open>.\<close> segments and
  resolves \<open>..\<close> against the segment before it (kept, on a relative path, when there
  is none to resolve against).
\<close>

fun splitSlash :: "string \<Rightarrow> string list" where
  "splitSlash [] = [[]]"
| "splitSlash (c # cs) =
     (if c = CHR ''/'' then [] # splitSlash cs
      else (case splitSlash cs of [] \<Rightarrow> [[c]] | s # ss \<Rightarrow> (c # s) # ss))"

fun joinSlash :: "string list \<Rightarrow> string" where
  "joinSlash [] = []"
| "joinSlash [s] = s"
| "joinSlash (s # t # ss) = s @ ''/'' @ joinSlash (t # ss)"

fun normalizeString :: "bool \<Rightarrow> string list \<Rightarrow> string list \<Rightarrow> string list" where
  "normalizeString allowAboveRoot res [] = res"
| "normalizeString allowAboveRoot res (s # ss) =
     (if s = [] \<or> s = ''.'' then normalizeString allowAboveRoot res ss
      else if s = ''..'' then
        (if res \<noteq> [] \<and> last res \<noteq> ''..'' then normalizeString allowAboveRoot (butlast res) ss
         else if allowAboveRoot then normalizeString allowAboveRoot (res @ [''..'']) ss
         else normalizeString allowAboveRoot res ss)
      else normalizeString allowAboveRoot (res @ [s]) ss)"

definition path_normalize :: "string \<Rightarrow> string" where
  "path_normalize p =
     (if p = [] then ''.''
      else
        (let isAbsolute = (hd p = CHR ''/'');
             trailingSeparator = (last p = CHR ''/'');
             q = joinSlash (normalizeString (\<not> isAbsolute) [] (splitSlash p))
         in if q = [] then (if isAbsolute then ''/'' else if trailingSeparator then ''./'' else ''.'')
            else (if isAbsolute then ''/'' else []) @ q @ (if trailingSeparator then ''/'' else [])))"

definition path_join :: "string \<Rightarrow> string \<Rightarrow> string" where
  "path_join a b =
     (if a = [] \<and> b = [] then ''.''
      else if a = [] then path_normalize b
      else if b = [] then path_normalize a
      else path_normalize (a @ ''/'' @ b))"

definition path_basename :: "string \<Rightarrow> string" where
  "path_basename p =
     (case filter (\<lambda>s. s \<noteq> []) (splitSlash p) of [] \<Rightarrow> [] | s # ss \<Rightarrow> last (s # ss))"

section \<open>Output naming\<close>

text \<open>
  \<open>originalFilename.replace(/\.docx$/i, '.pdf')\<close>: the pattern matches the last five
  characters of the name, a dot and the letters d, o, c, x in either case.
\<close>

fun matchesDocx :: "string \<Rightarrow> bool" where
  "matchesDocx [c0, c1, c2, c3, c4] =
     (c0 = CHR ''.'' \<and> (c1 = CHR ''d'' \<or> c1 = CHR ''D'') \<and> (c2 = CHR ''o'' \<or> c2 = CHR ''O'')
        \<and> (c3 = CHR ''c'' \<or> c3 = CHR ''C'') \<and> (c4 = CHR ''x'' \<or> c4 = CHR ''X''))"
| "matchesDocx s = False"

definition replaceDocx :: "string \<Rightarrow> string" where
  "replaceDocx s =
     (if 5 \<le> length s \<and> matchesDocx (drop (length s - 5) s)
      then take (length s - 5) s @ ''.pdf'' else s)"

section \<open>Numbers as text\<close>

definition digit :: "nat \<Rightarrow> char" where
  "digit d = char_of (48 + d)"

fun show_nat :: "nat \<Rightarrow> string" where
  "show_nat n = (if n < 10 then [digit n] else show_nat (n div 10) @ [digit (n mod 10)])"

declare show_nat.simps [simp del]

section \<open>Base64\<close>

text \<open>
  \<open>buffer.toString('base64')\<close> and its inverse \<open>Buffer.from(s, 'base64')\<close>: three bytes
  are four characters of the alphabet, and the last group is padded with \<open>=\<close>.
\<close>

definition b64chars :: string where
  "b64chars = ''ABCDEFGHIJKLMNOPQRSTUVWXYZabcdefghijklmnopqrstuvwxyz0123456789+/''"

definition b64char :: "nat \<Rightarrow> char" where
  "b64char i = b64chars ! i"

fun index_of :: "'a \<Rightarrow> 'a list \<Rightarrow> nat" where
  "index_of c [] = 0"
| "index_of c (x # xs) = (if x = c then 0 else Suc (index_of c xs))"

definition b64index :: "char \<Rightarrow> nat" where
  "b64index c = index_of c b64chars"

fun toBase64 :: "bytes \<Rightarrow> string" where
  "toBase64 [] = []"
| "toBase64 [a] =
     (let n = unat a * 65536
      in [b64char (n div 262144), b64char (n div 4096 mod 64), CHR ''='', CHR ''=''])"
| "toBase64 [a, b] =
     (let n = unat a * 65536 + unat b * 256
      in [b64char (n div 262144), b64char (n div 4096 mod 64), b64char (n div 64 mod 64), CHR ''=''])"
| "toBase64 (a # b # c # rest) =
     (let n = unat a * 65536 + unat b * 256 + unat c
      in [b64char (n div 262144), b64char (n div 4096 mod 64), b64char (n div 64 mod 64),
          b64char (n mod 64)] @ toBase64 rest)"

fun fromBase64 :: "string \<Rightarrow> bytes" where
  "fromBase64 (p # q # r # s # rest) =
     (if s = CHR ''='' then
        (if r = CHR ''='' then
           (let n = b64index p * 262144 + b64index q * 4096 in [of_nat (n div 65536)])
         else
           (let n = b64index p * 262144 + b64index q * 4096 + b64index r * 64
            in [of_nat (n div 65536), of_nat (n div 256 mod 256)]))
      else
        (let n = b64index p * 262144 + b64index q * 4096 + b64index r * 64 + b64index s
         in [of_nat (n div 65536), of_nat (n div 256 mod 256), of_nat (n mod 256)]
            @ fromBase64 rest))"
| "fromBase64 s = []"

section \<open>Metadata heuristic\<close>

record metadata =
  suggestedFormat :: string
  contentLength :: nat
  hasHeaders :: bool
  hasFooters :: bool
  messages :: "diagnostic list"

text \<open>
  The choice of the page format from the length of the extracted text: the variable
  starts as \<open>A4\<close>, is set to \<open>A4\<close> above 3000 and to \<open>Letter\<close> above 500.
\<close>

definition suggestFormat :: "nat \<Rightarrow> string" where
  "suggestFormat len =
     (let initial = ''A4''
      in if len > 3000 then ''A4''
         else if len > 500 then ''Letter''
         else initial)"

definition defaultGuess :: metadata where
  "defaultGuess =
     \<lparr>suggestedFormat = ''A4'', contentLength = 0, hasHeaders = False, hasFooters = False,
      messages = []\<rparr>"

text \<open>The body of the \<open>try\<close> block of \<open>extractDocumentMetadata\<close>.\<close>

definition extractDocumentMetadata_try :: "env \<Rightarrow> bytes \<Rightarrow> metadata io" where
  "extractDocumentMetadata_try E fileBuffer =
     bind_io (fs_mkdtemp E (path_join (os_tmpdir E) ''doc-meta-'')) (\<lambda>tempDir.
     let tempFilePath = path_join tempDir ''temp.docx'' in
     bind_io (fs_writeFile E tempFilePath fileBuffer) (\<lambda>_.
     bind_io (ask (\<lambda>w. mammoth_extractRawText E w tempFilePath)) (\<lambda>(value, msgs).
     let len = length value in
     return_io
       \<lparr>suggestedFormat = suggestFormat len,
        contentLength = len,
        hasHeaders = list_ex (\<lambda>m. includes_str (message_d m) ''header'') msgs,
        hasFooters = list_ex (\<lambda>m. includes_str (message_d m) ''footer'') msgs,
        messages = msgs\<rparr>)))"

definition extractDocumentMetadata :: "env \<Rightarrow> bytes \<Rightarrow> metadata io" where
  "extractDocumentMetadata E fileBuffer =
     try_catch (extractDocumentMetadata_try E fileBuffer) (\<lambda>error.
       bind_io (console_error ''Failed to extract document metadata:'' error) (\<lambda>_.
       return_io defaultGuess))"

section \<open>Conversion\<close>

text \<open>\<open>x || d\<close> on an optional string: absent and empty are both replaced.\<close>

definition or_default :: "string option \<Rightarrow> string \<Rightarrow> string" where
  "or_default x d = (case x of None \<Rightarrow> d | Some s \<Rightarrow> if s = [] then d else s)"

definition defaultPageConfig :: finalPageConfig where
  "defaultPageConfig =
     \<lparr>f_format = ''A4'',
      f_margin = \<lparr>m_top = ''1in'', m_right = ''1in'', m_bottom = ''1in'', m_left = ''1in''\<rparr>\<rparr>"

text \<open>\<open>pageConfig.margin?.top\<close> and its siblings: absent when the margin is.\<close>

definition margin_field :: "(margin_opts \<Rightarrow> string option) \<Rightarrow> pageConfig_opts \<Rightarrow> string option" where
  "margin_field sel pc = (case margin pc of None \<Rightarrow> None | Some m \<Rightarrow> sel m)"

definition emptyPageConfig :: pageConfig_opts where
  "emptyPageConfig = \<lparr>format = None, margin = None\<rparr>"

definition finalPageConfig_of :: "formatOptions \<Rightarrow> finalPageConfig" where
  "finalPageConfig_of fo =
     (let pc = (case pageConfig fo of None \<Rightarrow> emptyPageConfig | Some c \<Rightarrow> c)
      in \<lparr>f_format = or_default (format pc) (f_format defaultPageConfig),
          f_margin =
            \<lparr>m_top = or_default (margin_field top pc) (m_top (f_margin defaultPageConfig)),
             m_right = or_default (margin_field right pc) (m_right (f_margin defaultPageConfig)),
             m_bottom = or_default (margin_field bottom pc) (m_bottom (f_margin defaultPageConfig)),
             m_left = or_default (margin_field left pc) (m_left (f_margin defaultPageConfig))\<rparr>\<rparr>)"

definition styleMap_rules :: "string list" where
  \<open>styleMap_rules =
     [''p[style-name='Heading 1'] => h1:fresh'',
      ''p[style-name='Heading 2'] => h2:fresh'',
      ''p[style-name='Heading 3'] => h3:fresh'',
      ''p[style-name='Title'] => h1.title:fresh'',
      ''r[style-name='Strong'] => strong'',
      ''p[style-name='Text Body'] => p:fresh'',
      ''p[style-name='List Paragraph'] => p.list-paragraph:fresh'',
      ''p[style-name='Header'] => div.header > p:fresh'',
      ''p[style-name='Footer'] => div.footer > p:fresh'',
      ''p[style-name='TOC Heading'] => h1.toc-heading:fresh'',
      ''p[style-name='TOC 1'] => p.toc-1:fresh'',
      ''p[style-name='TOC 2'] => p.toc-2:fresh'',
      ''r[style-name='Hyperlink'] => a'']\<close>

definition nl :: string where
  "nl = [CHR 0x0A]"

text \<open>The lines of a template literal, joined by line breaks.\<close>

fun unlines :: "string list \<Rightarrow> string" where
  "unlines [] = []"
| "unlines [l] = l"
| "unlines (l # k # ls) = l @ nl @ unlines (k # ls)"

definition css_of :: "finalPageConfig \<Rightarrow> string" where
  \<open>css_of fpc = unlines
     ([[],
      ''      body {'',
      ''        font-family: 'Arial', 'Helvetica', sans-serif;'',
      ''        line-height: 1.5;'',
      ''        margin: 0;'',
      ''        padding: 0;'',
      ''        counter-reset: page;'',
      ''      }'',
      ''      @page {'',
      ''        size: '' @ f_format fpc @ '';'',
      ''        margin: '' @ m_top (f_margin fpc) @ '' '' @ m_right (f_margin fpc) @ '' ''
        @ m_bottom (f_margin fpc) @ '' '' @ m_left (f_margin fpc) @ '';'',
      ''      }'',
      ''      .header, .footer {'',
      ''        position: fixed;'',
      ''        width: 100%;'',
      ''        left: 0;'',
      ''      }'',
      ''      .header {'',
      ''        top: 0;'',
      ''      }'',
      ''      .footer {'',
      ''        bottom: 0;'',
      ''      }'',
      ''      table {'',
      ''        width: 100%;'',
      ''        border-collapse: collapse;'',
      ''      }'',
      ''      td, th {'',
      ''        padding: 8px;'',
      ''        border: 1px solid #ddd;'',
      ''      }'',
      ''      .pagebreak {'',
      ''        page-break-before: always;'',
      ''      }'',
      ''      .text-center {'',
      ''        text-align: center;'',
      ''      }'',
      ''      .text-right {'',
      ''        text-align: right;'',
      ''      }'',
      ''      .text-left {'',
      ''        text-align: left;'',
      ''      }'',
      ''      .text-justify {'',
      ''        text-align: justify;'',
      ''      }'',
      ''      /* Add page numbers */'',
      ''      .footer:after {'',
      ''        content: counter(page);'',
      ''        counter-increment: page;'',
      ''      }'',
      ''    '']) \<close>

definition html_of :: "string \<Rightarrow> string \<Rightarrow> bool \<Rightarrow> string \<Rightarrow> string" where
  \<open>html_of originalFilename css preserve htmlContent = unlines
     [[],
      ''      <!DOCTYPE html>'',
      ''      <html>'',
      ''      <head>'',
      ''        <meta charset="UTF-8">'',
      ''        <title>'' @ originalFilename @ ''</title>'',
      ''        <style>'' @ css @ ''</style>'',
      ''      </head>'',
      ''      <body>'',
      ''        '' @
        (if preserve then
           unlines
             [''<div class="header"></div>'',
              ''           <div class="content">'' @ htmlContent @ ''</div>'',
              ''           <div class="footer"></div>'']
         else htmlContent),
      ''      </body>'',
      ''      </html>'',
      ''    '']\<close>

text \<open>
  \<open>page.pdf(options)\<close>: the browser renders the loaded page and writes the PDF to the
  \<open>path\<close> of the options.
\<close>

definition page_pdf_io :: "env \<Rightarrow> string \<Rightarrow> pdf_options \<Rightarrow> unit io" where
  "page_pdf_io E url opts w =
     (case page_pdf E w url opts of
        Inl e \<Rightarrow> (w, Inl e)
      | Inr b \<Rightarrow> (w\<lparr>files := (files w)(pdf_path opts \<mapsto> b)\<rparr>, Inr ()))"

text \<open>
  The \<open>try\<close> block of \<open>convertDocxToPdf\<close> runs its stages in sequence. First the
  temporary directory is created and the DOCX buffer is written into it.
\<close>

definition loadDocument :: "env \<Rightarrow> bytes \<Rightarrow> string io" where
  "loadDocument E fileBuffer =
     bind_io (fs_mkdtemp E (path_join (os_tmpdir E) ''doc-convert-'')) (\<lambda>tempDir.
     let tempFilePath = path_join tempDir ''input.docx'' in
     bind_io (fs_writeFile E tempFilePath fileBuffer) (\<lambda>_.
     return_io tempDir))"

text \<open>The DOCX library turns the file into HTML; its messages are logged.\<close>

definition extractStructure :: "env \<Rightarrow> string \<Rightarrow> string io" where
  "extractStructure E tempDir =
     (let tempFilePath = path_join tempDir ''input.docx'';
          mammothOptions = \<lparr>path_o = tempFilePath, styleMap = styleMap_rules\<rparr> in
      bind_io (ask (\<lambda>w. mammoth_convertToHtml E w mammothOptions)) (\<lambda>(htmlContent, msgs).
      bind_io (if length msgs > 0 then console_log ''Mammoth conversion messages:'' msgs
               else return_io ()) (\<lambda>_.
      return_io htmlContent)))"

text \<open>The HTML is wrapped in the document shell and written next to the DOCX file.\<close>

definition writeLayout ::
  "env \<Rightarrow> string \<Rightarrow> string \<Rightarrow> finalPageConfig \<Rightarrow> bool \<Rightarrow> string \<Rightarrow> string io" where
  "writeLayout E tempDir originalFilename fpc preserve htmlContent =
     (let css = css_of fpc;
          completeHtml = html_of originalFilename css preserve htmlContent;
          tempHtmlPath = path_join tempDir ''output.html'' in
      bind_io (fs_writeFile E tempHtmlPath (encode_str completeHtml)) (\<lambda>_.
      return_io tempHtmlPath))"

text \<open>
  The browser is launched (always headless, with the sandbox switched off), loads the
  HTML file, measures the header and the footer when they are preserved, writes the PDF
  and is closed.
\<close>

definition renderPdf :: "env \<Rightarrow> string \<Rightarrow> string \<Rightarrow> finalPageConfig \<Rightarrow> bool \<Rightarrow> unit io" where
  \<open>renderPdf E tempHtmlPath outputPath fpc preserve =
     bind_io (attempt (puppeteer_launch E)) (\<lambda>_.
     bind_io (attempt (browser_newPage E)) (\<lambda>_.
     let url = ''file://'' @ tempHtmlPath in
     bind_io (attempt (\<lambda>w. page_goto E w url)) (\<lambda>_.
     bind_io (if preserve then
                bind_io (ask (\<lambda>w. page_evaluate_header E w url)) (\<lambda>headerHeight.
                bind_io (ask (\<lambda>w. page_evaluate_footer E w url)) (\<lambda>footerHeight.
                return_io (headerHeight, footerHeight)))
              else return_io (0, 0)) (\<lambda>(headerHeight, footerHeight).
     bind_io (page_pdf_io E url
               \<lparr>pdf_path = outputPath,
                pdf_format = f_format fpc,
                pdf_margin =
                  \<lparr>m_top = (if preserve then show_nat (headerHeight + 36) @ ''px''
                            else m_top (f_margin fpc)),
                   m_right = m_right (f_margin fpc),
                   m_bottom = (if preserve then show_nat (footerHeight + 36) @ ''px''
                               else m_bottom (f_margin fpc)),
                   m_left = m_left (f_margin fpc)\<rparr>,
                printBackground = True,
                displayHeaderFooter = preserve,
                headerTemplate =
                  (if preserve
                   then ''<div style="width: 100%; padding: 0 1cm; font-size: 10px;"></div>''
                   else []),
                footerTemplate =
                  (if preserve
                   then ''<div style="width: 100%; padding: 0 1cm; font-size: 10px; text-align: center;"></div>''
                   else [])\<rparr>) (\<lambda>_.
     attempt (browser_close E))))))\<close>

text \<open>The temporary directory is removed; a failure to remove it is only a warning.\<close>

definition cleanUp :: "env \<Rightarrow> string \<Rightarrow> unit io" where
  "cleanUp E tempDir =
     try_catch (fs_rm E tempDir) (\<lambda>cleanupErr.
       console_warn ''Warning: Failed to clean up temporary files'' cleanupErr)"

text \<open>
  The stages in the order of the source, up to the reading of the converted PDF: the
  PDF buffer and the output path are what the rest of the function works with.
\<close>

definition producePdf ::
  "env \<Rightarrow> bytes \<Rightarrow> string \<Rightarrow> string \<Rightarrow> finalPageConfig \<Rightarrow> bool \<Rightarrow> (bytes \<times> string) io" where
  "producePdf E fileBuffer originalFilename outDir fpc preserve =
     bind_io (loadDocument E fileBuffer) (\<lambda>tempDir.
     bind_io (extractStructure E tempDir) (\<lambda>htmlContent.
     bind_io (writeLayout E tempDir originalFilename fpc preserve htmlContent) (\<lambda>tempHtmlPath.
     let outputPath = path_join outDir (replaceDocx originalFilename) in
     bind_io (renderPdf E tempHtmlPath outputPath fpc preserve) (\<lambda>_.
     bind_io (cleanUp E tempDir) (\<lambda>_.
     bind_io (fs_readFile E outputPath) (\<lambda>pdfBuffer.
     return_io (pdfBuffer, outputPath)))))))"

text \<open>
  The result object: a key the source does not set is \<open>None\<close>. The variable \<open>base64\<close>
  of the source is \<open>null\<close> (here \<open>None\<close>) unless the return type is \<open>base64\<close>.
\<close>

record result =
  buffer :: "bytes option"
  base64 :: "string option"
  filename :: string

definition packageResult :: "string \<Rightarrow> bytes \<Rightarrow> string \<Rightarrow> result io" where
  "packageResult rt pdfBuffer outputPath =
     (let b64 = (if rt = ''base64'' then Some (toBase64 pdfBuffer) else None)
      in if rt = ''buffer'' then
           return_io \<lparr>buffer = Some pdfBuffer, base64 = None, filename = path_basename outputPath\<rparr>
         else if rt = ''file'' then
           return_io \<lparr>buffer = None, base64 = None, filename = outputPath\<rparr>
         else if rt = ''base64'' then
           return_io \<lparr>buffer = None, base64 = b64, filename = path_basename outputPath\<rparr>
         else throw_io (Error (''Invalid returnType specified: '' @ rt)))"

text \<open>The destructuring defaults of the two option objects.\<close>

definition returnType_of :: "options \<Rightarrow> string" where
  "returnType_of opts = (case returnType opts of None \<Rightarrow> ''buffer'' | Some r \<Rightarrow> r)"

definition outputDir_of :: "env \<Rightarrow> options \<Rightarrow> string" where
  "outputDir_of E opts = (case outputDir opts of None \<Rightarrow> os_tmpdir E | Some d \<Rightarrow> d)"

definition preserveHeaders_of :: "formatOptions \<Rightarrow> bool" where
  "preserveHeaders_of fo = (case preserveHeaders fo of None \<Rightarrow> True | Some b \<Rightarrow> b)"

text \<open>The whole \<open>try\<close> block of \<open>convertDocxToPdf\<close>.\<close>

definition convertDocxToPdf_try ::
  "env \<Rightarrow> bytes \<Rightarrow> string \<Rightarrow> options \<Rightarrow> formatOptions \<Rightarrow> result io" where
  "convertDocxToPdf_try E fileBuffer originalFilename opts fo =
     bind_io (producePdf E fileBuffer originalFilename (outputDir_of E opts)
                (finalPageConfig_of fo) (preserveHeaders_of fo)) (\<lambda>(pdfBuffer, outputPath).
     packageResult (returnType_of opts) pdfBuffer outputPath)"

definition convertDocxToPdf ::
  "env \<Rightarrow> bytes \<Rightarrow> string \<Rightarrow> options \<Rightarrow> formatOptions \<Rightarrow> result io" where
  "convertDocxToPdf E fileBuffer originalFilename opts fo =
     try_catch (convertDocxToPdf_try E fileBuffer originalFilename opts fo) (\<lambda>error.
       bind_io (console_error ''Error converting DOCX to PDF:'' error) (\<lambda>_.
       throw_io (Error (''Failed to convert DOCX document to PDF: '' @ message error))))"

text \<open>The format options \<open>smartConvertDocxToPdf\<close> builds from the metadata.\<close>

definition smartFormatOptions :: "metadata \<Rightarrow> formatOptions" where
  "smartFormatOptions md =
     \<lparr>pageConfig = Some
        \<lparr>format = Some (suggestedFormat md),
         margin = Some \<lparr>top = Some ''1in'', right = Some ''1in'', bottom = Some ''1in'',
                        left = Some ''1in''\<rparr>\<rparr>,
      preserveHeaders = Some (hasHeaders md \<or> hasFooters md)\<rparr>"

definition smartConvertDocxToPdf :: "env \<Rightarrow> bytes \<Rightarrow> string \<Rightarrow> options \<Rightarrow> result io" where
  "smartConvertDocxToPdf E fileBuffer originalFilename opts =
     bind_io (extractDocumentMetadata E fileBuffer) (\<lambda>md.
     convertDocxToPdf E fileBuffer originalFilename opts (smartFormatOptions md))"

section \<open>A sample environment\<close>

text \<open>
  A file system where every operation succeeds, a DOCX library that accepts the files
  that start with the ZIP signature and rejects the others, and a browser that renders
  every page to the same short PDF. The theorems below are instantiated on it.
\<close>

definition sampleDocx :: bytes where
  "sampleDocx = [0x50, 0x4B, 0x03, 0x04]"

definition notDocx :: bytes where
  "notDocx = [0x68, 0x69]"

definition samplePdf :: bytes where
  "samplePdf = [0x25, 0x50, 0x44, 0x46, 0x2D]"

definition isZip :: "bytes option \<Rightarrow> bool" where
  "isZip f = (case f of None \<Rightarrow> False | Some b \<Rightarrow> take 2 b = [0x50, 0x4B])"

definition zipError :: error where
  "zipError = Error ''Could not find the end of central directory. Is this a zip file?''"

definition env0 :: env where
  "env0 =
     \<lparr>os_tmpdir = ''/tmp'',
      mkdtemp_name = (\<lambda>w prefix. Inr (prefix @ ''aB3xYz'')),
      writeFile_fault = (\<lambda>w p. None),
      readFile_fault = (\<lambda>w p. None),
      rm_fault = (\<lambda>w p. None),
      mammoth_convertToHtml =
        (\<lambda>w opts. if isZip (files w (path_o opts)) then Inr (''<p>Hello</p>'', [])
                  else Inl zipError),
      mammoth_extractRawText =
        (\<lambda>w p. if isZip (files w p) then Inr (''Hello'', []) else Inl zipError),
      puppeteer_launch = (\<lambda>w. None),
      browser_newPage = (\<lambda>w. None),
      page_goto = (\<lambda>w url. None),
      page_evaluate_header = (\<lambda>w url. Inr 0),
      page_evaluate_footer = (\<lambda>w url. Inr 0),
      page_pdf = (\<lambda>w url opts. Inr samplePdf),
      browser_close = (\<lambda>w. None)\<rparr>"

definition world0 :: world where
  "world0 = \<lparr>dirs = {''/tmp''}, files = Map.empty, console = []\<rparr>"

definition opts0 :: options where
  "opts0 = \<lparr>returnType = None, outputDir = None\<rparr>"

definition fo0 :: formatOptions where
  "fo0 = \<lparr>pageConfig = None, preserveHeaders = None\<rparr>"

text \<open>The sample environment with an extracted text of \<open>n\<close> characters.\<close>

definition env_text :: "nat \<Rightarrow> env" where
  "env_text n = env0\<lparr>mammoth_extractRawText := (\<lambda>w p. Inr (replicate n (CHR ''a''), []))\<rparr>"

text \<open>The sample environment with a browser that cannot be launched.\<close>

definition launchError :: error where
  "launchError = Error ''Failed to launch the browser process!''"

definition env_nobrowser :: env where
  "env_nobrowser = env0\<lparr>puppeteer_launch := (\<lambda>w. Some launchError)\<rparr>"

text \<open>
  The sample environment with a browser whose PDF depends on the state it renders in, as
  the creation date of a real PDF does: here the last byte tells whether a file was at
  the output path already.
\<close>

definition env_stamped :: env where
  "env_stamped =
     env0\<lparr>page_pdf :=
       (\<lambda>w url opts. Inr (samplePdf @ [if files w (pdf_path opts) = None then 0x31 else 0x32]))\<rparr>"

text \<open>
  The sample world after the document loader has run on a buffer, and after the layout
  wrapper has written the HTML of the sample document.
\<close>

definition world_loaded :: "bytes \<Rightarrow> world" where
  "world_loaded b =
     \<lparr>dirs = {''/tmp/doc-convert-aB3xYz'', ''/tmp''},
      files = [''/tmp/doc-convert-aB3xYz/input.docx'' \<mapsto> b],
      console = []\<rparr>"

definition world_laid_out :: world where
  "world_laid_out =
     \<lparr>dirs = {''/tmp/doc-convert-aB3xYz'', ''/tmp''},
      files = [''/tmp/doc-convert-aB3xYz/input.docx'' \<mapsto> sampleDocx,
               ''/tmp/doc-convert-aB3xYz/output.html'' \<mapsto>
                 encode_str (html_of ''sample.docx'' (css_of (finalPageConfig_of fo0)) True
                   ''<p>Hello</p>'')],
      console = []\<rparr>"

section \<open>The convenience entry point as the specification words it\<close>

text \<open>
  The specification of \<open>smartConvertDocxToPdf\<close>: the result of \<open>convertDocxToPdf\<close> on
  the same buffer, filename and options, with format options derived from the metadata
  guess of that buffer: the format is the suggested format, the margins are one inch each
  and the headers are preserved when the guess has headers or footers. The conversion
  runs in the world the metadata extraction leaves.
\<close>

definition smartConvertDocxToPdf_spec :: "env \<Rightarrow> bytes \<Rightarrow> string \<Rightarrow> options \<Rightarrow> result io" where
  "smartConvertDocxToPdf_spec E fileBuffer originalFilename opts w =
     (case extractDocumentMetadata E fileBuffer w of
        (w1, Inl e) \<Rightarrow> (w1, Inl e)
      | (w1, Inr guess) \<Rightarrow>
          convertDocxToPdf E fileBuffer originalFilename opts
            \<lparr>pageConfig = Some
               \<lparr>format = Some (suggestedFormat guess),
                margin = Some \<lparr>top = Some ''1in'', right = Some ''1in'', bottom = Some ''1in'',
                               left = Some ''1in''\<rparr>\<rparr>,
             preserveHeaders = Some (hasHeaders guess \<or> hasFooters guess)\<rparr> w1)"

section \<open>Base64 decoding inverts encoding\<close>

lemma b64index_b64char: "i < 64 \<Longrightarrow> b64index (b64char i) = i"
proof -
  have "\<forall>i<64. b64index (b64char i) = i"
    unfolding b64index_def b64char_def b64chars_def
    by (simp add: All_less_Suc numeral_eq_Suc)
  then show "i < 64 \<Longrightarrow> b64index (b64char i) = i" by blast
qed

lemma b64char_not_pad: "i < 64 \<Longrightarrow> b64char i \<noteq> CHR ''=''"
proof -
  have "\<forall>i<64. b64char i \<noteq> CHR ''=''"
    unfolding b64char_def b64chars_def
    by (simp add: All_less_Suc numeral_eq_Suc)
  then show "i < 64 \<Longrightarrow> b64char i \<noteq> CHR ''=''" by blast
qed

lemma unat_byte: "unat (a :: byte) < 256"
  using unsigned_less [of a] by simp

lemma byte_of_unat: "(of_nat (unat (a :: byte)) :: byte) = a"
  by simp


lemma div_mod_digit:
  fixes k c m :: nat
  assumes "c < m"
  shows "(k * m + c) div m = k" and "(k * m + c) mod m = c"
  using assms by simp_all

lemma bytes3:
  fixes a b c :: nat
  assumes "a < 256" "b < 256" "c < 256"
  shows "(a * 65536 + b * 256 + c) div 65536 = a"
    and "(a * 65536 + b * 256 + c) div 256 mod 256 = b"
    and "(a * 65536 + b * 256 + c) mod 256 = c"
    and "a * 65536 + b * 256 + c < 16777216"
proof -
  define n where "n = a * 65536 + b * 256 + c"
  have e: "n = (a * 256 + b) * 256 + c" unfolding n_def by simp
  have d: "n div 256 = a * 256 + b"
    by (simp only: e div_mod_digit(1) [OF assms(3)])
  have m: "n mod 256 = c"
    by (simp only: e div_mod_digit(2) [OF assms(3)])
  have dm: "n div 256 mod 256 = b"
    by (simp only: d div_mod_digit(2) [OF assms(2)])
  have "n div 65536 = n div 256 div 256"
    by (simp add: div_mult2_eq)
  also have "\<dots> = a"
    by (simp only: d div_mod_digit(1) [OF assms(2)])
  finally have dd: "n div 65536 = a" .
  have lt: "n < 16777216" unfolding n_def using assms by linarith
  show "(a * 65536 + b * 256 + c) div 65536 = a"
    and "(a * 65536 + b * 256 + c) div 256 mod 256 = b"
    and "(a * 65536 + b * 256 + c) mod 256 = c"
    and "a * 65536 + b * 256 + c < 16777216"
    using dd dm m lt unfolding n_def by blast+
qed

lemma recompose24:
  fixes n :: nat
  shows "n div 262144 * 262144 + n div 4096 mod 64 * 4096 + n div 64 mod 64 * 64 + n mod 64 = n"
proof -
  define k where "k = n div 64"
  define l where "l = k div 64"
  define s0 where "s0 = l div 64"
  define s1 where "s1 = l mod 64"
  define s2 where "s2 = k mod 64"
  define s3 where "s3 = n mod 64"
  have a: "n div 4096 = l" unfolding l_def k_def by (simp add: div_mult2_eq)
  have b: "n div 262144 = s0" unfolding s0_def l_def k_def by (simp add: div_mult2_eq)
  have n: "n = 64 * k + s3" unfolding k_def s3_def by simp
  have k: "k = 64 * l + s2" unfolding l_def s2_def by simp
  have l: "l = 64 * s0 + s1" unfolding s0_def s1_def by simp
  have "s0 * 262144 + s1 * 4096 + s2 * 64 + s3 = n"
    using n k l by linarith
  then show ?thesis
    unfolding a b s1_def [symmetric] k_def [symmetric] s2_def [symmetric] s3_def [symmetric] .
qed

lemma sextet0: fixes n :: nat assumes "n < 16777216" shows "n div 262144 < 64"
  using assms by (simp add: less_mult_imp_div_less)


lemma group3:
  fixes a b c :: byte
  defines "n \<equiv> unat a * 65536 + unat b * 256 + unat c"
  shows "fromBase64 ([b64char (n div 262144), b64char (n div 4096 mod 64),
            b64char (n div 64 mod 64), b64char (n mod 64)] @ rest) = [a, b, c] @ fromBase64 rest"
proof -
  have lt: "n < 16777216" unfolding n_def using bytes3(4) [OF unat_byte unat_byte unat_byte] .
  have idx: "b64index (b64char (n div 262144)) = n div 262144"
       "b64index (b64char (n div 4096 mod 64)) = n div 4096 mod 64"
       "b64index (b64char (n div 64 mod 64)) = n div 64 mod 64"
       "b64index (b64char (n mod 64)) = n mod 64"
    using sextet0 [OF lt] by (simp_all add: b64index_b64char)
  have np: "b64char (n mod 64) \<noteq> CHR ''=''" by (simp add: b64char_not_pad)
  have by3: "n div 65536 = unat a" "n div 256 mod 256 = unat b" "n mod 256 = unat c"
    unfolding n_def using bytes3(1-3) [OF unat_byte unat_byte unat_byte, of a b c] by blast+
  show ?thesis
    by (simp only: fromBase64.simps append_Cons append_Nil idx np recompose24 by3 Let_def if_False
          byte_of_unat)
qed


lemma group2:
  fixes a b :: byte
  defines "n \<equiv> unat a * 65536 + unat b * 256"
  shows "fromBase64 [b64char (n div 262144), b64char (n div 4096 mod 64),
            b64char (n div 64 mod 64), CHR ''=''] = [a, b]"
proof -
  have n0: "n = unat a * 65536 + unat b * 256 + 0" unfolding n_def by simp
  have z: "(0::nat) < 256" by simp
  have lt: "n < 16777216" unfolding n0 using bytes3(4) [OF unat_byte unat_byte z] .
  have idx: "b64index (b64char (n div 262144)) = n div 262144"
       "b64index (b64char (n div 4096 mod 64)) = n div 4096 mod 64"
       "b64index (b64char (n div 64 mod 64)) = n div 64 mod 64"
    using sextet0 [OF lt] by (simp_all add: b64index_b64char)
  have np: "b64char (n div 64 mod 64) \<noteq> CHR ''=''" by (simp add: b64char_not_pad)
  have "n = (unat a * 1024 + unat b * 4) * 64" unfolding n_def by simp
  then have m0: "n mod 64 = 0" by simp
  have m: "n div 262144 * 262144 + n div 4096 mod 64 * 4096 + n div 64 mod 64 * 64 = n"
    using recompose24 [of n] m0 by simp
  have by3: "n div 65536 = unat a" "n div 256 mod 256 = unat b"
    unfolding n0 using bytes3(1,2) [OF unat_byte unat_byte z, of a b] by blast+
  show ?thesis
    by (simp only: fromBase64.simps idx np m by3 Let_def if_False if_True byte_of_unat refl)
qed

lemma group1:
  fixes a :: byte
  defines "n \<equiv> unat a * 65536"
  shows "fromBase64 [b64char (n div 262144), b64char (n div 4096 mod 64), CHR ''='', CHR ''='']
           = [a]"
proof -
  have n0: "n = unat a * 65536 + 0 * 256 + 0" unfolding n_def by simp
  have z: "(0::nat) < 256" by simp
  have lt: "n < 16777216" unfolding n0 using bytes3(4) [OF unat_byte z z] .
  have idx: "b64index (b64char (n div 262144)) = n div 262144"
       "b64index (b64char (n div 4096 mod 64)) = n div 4096 mod 64"
    using sextet0 [OF lt] by (simp_all add: b64index_b64char)
  have "n = (unat a * 1024) * 64" unfolding n_def by simp
  then have m0: "n mod 64 = 0" and d: "n div 64 = unat a * 16 * 64" by simp_all
  have m1: "n div 64 mod 64 = 0" unfolding d by simp
  have m: "n div 262144 * 262144 + n div 4096 mod 64 * 4096 = n"
    using recompose24 [of n] m0 m1 by simp
  have by3: "n div 65536 = unat a"
    unfolding n0 using bytes3(1) [OF unat_byte z z, of a] by blast
  show ?thesis
    by (simp only: fromBase64.simps idx m by3 Let_def if_True byte_of_unat refl)
qed

lemma fromBase64_toBase64: "fromBase64 (toBase64 bs) = bs"
proof (induction bs rule: toBase64.induct)
  case 1
  show ?case by simp
next
  case (2 a)
  show ?case using group1 [of a] by (simp only: toBase64.simps Let_def)
next
  case (3 a b)
  show ?case using group2 [of a b] by (simp only: toBase64.simps Let_def)
next
  case (4 a b c rest)
  show ?case using group3 [of a b c "toBase64 rest"] 4
    by (simp only: toBase64.simps Let_def append_Cons append_Nil)
qed

section \<open>The base name of a normalised path\<close>

lemma splitSlash_not_Nil: "splitSlash p \<noteq> []"
  by (induction p) (auto split: list.splits)

lemma splitSlash_no_slash: "s \<in> set (splitSlash p) \<Longrightarrow> CHR ''/'' \<notin> set s"
  by (induction p arbitrary: s) (auto split: list.splits if_splits)

lemma splitSlash_at_slash: "splitSlash (x @ CHR ''/'' # r) = splitSlash x @ splitSlash r"
proof (induction x)
  case Nil
  show ?case by simp
next
  case (Cons c cs)
  show ?case
  proof (cases "c = CHR ''/''")
    case True
    then show ?thesis using Cons by simp
  next
    case False
    obtain s ss where sp: "splitSlash cs = s # ss"
      using splitSlash_not_Nil [of cs] by (cases "splitSlash cs") auto
    show ?thesis using False Cons sp by simp
  qed
qed

lemma splitSlash_plain: "CHR ''/'' \<notin> set y \<Longrightarrow> splitSlash y = [y]"
  by (induction y) auto

lemma splitSlash_append_plain:
  "CHR ''/'' \<notin> set y \<Longrightarrow> splitSlash (x @ y) = butlast (splitSlash x) @ [last (splitSlash x) @ y]"
proof (induction x)
  case Nil
  then show ?case by (simp add: splitSlash_plain)
next
  case (Cons c cs)
  obtain s ss where sp: "splitSlash cs = s # ss"
    using splitSlash_not_Nil [of cs] by (cases "splitSlash cs") auto
  show ?case
  proof (cases "c = CHR ''/''")
    case True
    then show ?thesis using Cons sp by simp
  next
    case False
    then show ?thesis using Cons sp by (cases ss) auto
  qed
qed

lemma splitSlash_joinSlash:
  "segs \<noteq> [] \<Longrightarrow> \<forall>s\<in>set segs. CHR ''/'' \<notin> set s \<Longrightarrow> splitSlash (joinSlash segs) = segs"
proof (induction segs rule: joinSlash.induct)
  case 1
  then show ?case by simp
next
  case (2 s)
  then show ?case by (simp add: splitSlash_plain)
next
  case (3 s t ss)
  have "splitSlash (s @ CHR ''/'' # joinSlash (t # ss)) = splitSlash s @ splitSlash (joinSlash (t # ss))"
    by (rule splitSlash_at_slash)
  then show ?case using 3 by (simp add: splitSlash_plain)
qed

lemma joinSlash_not_Nil: "rs \<noteq> [] \<Longrightarrow> \<forall>s\<in>set rs. s \<noteq> [] \<Longrightarrow> joinSlash rs \<noteq> []"
  by (induction rs rule: joinSlash.induct) auto

lemma normalizeString_last:
  "segs \<noteq> [] \<Longrightarrow> last segs = t \<Longrightarrow> t \<noteq> [] \<Longrightarrow> t \<noteq> ''.'' \<Longrightarrow> t \<noteq> ''..'' \<Longrightarrow>
     normalizeString a res segs \<noteq> [] \<and> last (normalizeString a res segs) = t"
proof (induction segs arbitrary: res a)
  case Nil
  then show ?case by simp
next
  case (Cons s ss)
  show ?case
  proof (cases "ss = []")
    case True
    then show ?thesis using Cons.prems by simp
  next
    case False
    then have l: "last ss = t" using Cons.prems by simp
    note ih = Cons.IH [OF False l Cons.prems(3) Cons.prems(4) Cons.prems(5)]
    show ?thesis by (simp add: ih)
  qed
qed

lemma normalizeString_segments:
  "\<forall>s\<in>set res. s \<noteq> [] \<and> CHR ''/'' \<notin> set s \<Longrightarrow> \<forall>s\<in>set segs. CHR ''/'' \<notin> set s \<Longrightarrow>
     \<forall>s\<in>set (normalizeString a res segs). s \<noteq> [] \<and> CHR ''/'' \<notin> set s"
proof (induction segs arbitrary: res a)
  case Nil
  then show ?case by simp
next
  case (Cons s ss)
  have b: "\<forall>s\<in>set (butlast res). s \<noteq> [] \<and> CHR ''/'' \<notin> set s"
    using Cons.prems(1) by (auto dest: in_set_butlastD)
  have d: "\<forall>s\<in>set (res @ [''..'']). s \<noteq> [] \<and> CHR ''/'' \<notin> set s"
    using Cons.prems(1) by auto
  have e: "s \<noteq> [] \<Longrightarrow> \<forall>u\<in>set (res @ [s]). u \<noteq> [] \<and> CHR ''/'' \<notin> set u"
    using Cons.prems by auto
  have r: "\<forall>s\<in>set ss. CHR ''/'' \<notin> set s" using Cons.prems(2) by simp
  show ?case
    using Cons.IH [OF Cons.prems(1) r] Cons.IH [OF b r] Cons.IH [OF d r] Cons.IH [OF e r]
    by simp
qed

lemma path_basename_normalize:
  assumes "last (splitSlash p) = t" "t \<noteq> []" "t \<noteq> ''.''" "t \<noteq> ''..''"
  shows "path_basename (path_normalize p) = t"
proof -
  define segs where "segs = splitSlash p"
  define ab where "ab = (hd p = CHR ''/'')"
  define rs where "rs = normalizeString (\<not> ab) [] segs"
  have pn: "p \<noteq> []" using assms(1,2) by auto
  have tr: "last p \<noteq> CHR ''/''"
  proof
    assume "last p = CHR ''/''"
    then have "p = butlast p @ CHR ''/'' # []" using pn by (metis append_butlast_last_id)
    then have "splitSlash p = splitSlash (butlast p) @ splitSlash []"
      using splitSlash_at_slash [of "butlast p" "[]"] by simp
    then have "last (splitSlash p) = []" by simp
    then show False using assms(1,2) by simp
  qed
  have sn: "segs \<noteq> []" unfolding segs_def by (rule splitSlash_not_Nil)
  have sl: "last segs = t" unfolding segs_def by (rule assms(1))
  have rl: "rs \<noteq> []" "last rs = t"
    unfolding rs_def using normalizeString_last [OF sn sl assms(2,3,4)] by simp_all
  have ok: "\<forall>s\<in>set rs. s \<noteq> [] \<and> CHR ''/'' \<notin> set s"
    unfolding rs_def
    by (rule normalizeString_segments) (auto simp: segs_def dest: splitSlash_no_slash)
  have jn: "joinSlash rs \<noteq> []" using joinSlash_not_Nil rl(1) ok by blast
  have sj: "splitSlash (joinSlash rs) = rs" using splitSlash_joinSlash rl(1) ok by blast
  have fl: "filter (\<lambda>s. s \<noteq> []) rs = rs" using ok by (simp add: filter_id_conv)
  have norm: "path_normalize p = (if ab then ''/'' else []) @ joinSlash rs"
    using pn tr jn by (simp add: path_normalize_def Let_def rs_def segs_def ab_def)
  obtain r0 rr where rs: "rs = r0 # rr" using rl(1) by (cases rs) auto
  have "path_basename ((if ab then ''/'' else []) @ joinSlash rs) = last rs"
    using sj fl rs ok by (auto simp: path_basename_def)
  then show ?thesis using norm rl(2) by simp
qed

lemma startsWith_append: "startsWith (t @ x) t"
  by (induction t) auto

lemma endsWith_append: "endsWith (x @ t) t"
  by (simp add: endsWith_def startsWith_append)

lemma path_basename_join_pdf:
  "endsWith (path_basename (path_join outDir (stem @ ''.pdf''))) ''.pdf''"
proof -
  have plain: "CHR ''/'' \<notin> set ''.pdf''" by simp
  have *: "endsWith (path_basename (path_normalize (y @ ''.pdf''))) ''.pdf''" for y
  proof -
    have l: "last (splitSlash (y @ ''.pdf'')) = last (splitSlash y) @ ''.pdf''"
      using splitSlash_append_plain [OF plain, of y] by simp
    have "path_basename (path_normalize (y @ ''.pdf'')) = last (splitSlash y) @ ''.pdf''"
      by (rule path_basename_normalize [OF l]) auto
    then show ?thesis by (simp add: endsWith_append)
  qed
  show ?thesis
  proof (cases "outDir = []")
    case True
    then show ?thesis using * [of stem] by (simp add: path_join_def)
  next
    case False
    then show ?thesis using * [of "outDir @ ''/'' @ stem"] by (simp add: path_join_def)
  qed
qed

lemma path_basename_join_plain:
  assumes "name \<noteq> []" "CHR ''/'' \<notin> set name" "name \<noteq> ''.''" "name \<noteq> ''..''"
  shows "path_basename (path_join od name) = name"
proof (cases "od = []")
  case True
  have "last (splitSlash name) = name" using assms(2) by (simp add: splitSlash_plain)
  from path_basename_normalize [OF this assms(1,3,4)] show ?thesis
    using True assms(1) by (simp add: path_join_def)
next
  case False
  have "splitSlash (od @ CHR ''/'' # name) = splitSlash od @ [name]"
    using assms(2) by (simp add: splitSlash_at_slash splitSlash_plain)
  then have "last (splitSlash (od @ CHR ''/'' # name)) = name" by simp
  from path_basename_normalize [OF this assms(1,3,4)] show ?thesis
    using False assms(1) by (simp add: path_join_def)
qed

section \<open>The stages of a call\<close>

lemma bind_io_Inr:
  "bind_io m f w = (w', Inr y) \<longleftrightarrow> (\<exists>w1 x. m w = (w1, Inr x) \<and> f x w1 = (w', Inr y))"
  by (auto simp: bind_io_def split: prod.splits sum.splits)

lemma attempt_Inr: "attempt f w = (w', Inr u) \<Longrightarrow> w' = w"
  by (auto simp: attempt_def split: option.splits)

lemma fs_readFile_Inr: "fs_readFile E p w = (w', Inr b) \<Longrightarrow> w' = w \<and> files w p = Some b"
  by (auto simp: fs_readFile_def split: option.splits)

lemma cleanUp_files: "cleanUp E d w = (w', r) \<Longrightarrow> files w' p = Some b \<Longrightarrow> files w p = Some b"
  by (auto simp: cleanUp_def try_catch_def fs_rm_def console_warn_def
        split: option.splits if_splits)

lemma page_pdf_io_Inr:
  "page_pdf_io E url opts w = (w', Inr u) \<Longrightarrow>
     \<exists>b. page_pdf E w url opts = Inr b \<and> files w' (pdf_path opts) = Some b"
  by (auto simp: page_pdf_io_def split: sum.splits)

lemma renderPdf_Inr:
  assumes "renderPdf E tempHtmlPath outputPath fpc preserve w = (w', Inr u)"
  shows "\<exists>wk url opts b. page_pdf E wk url opts = Inr b \<and> files w' outputPath = Some b"
proof -
  from assms obtain w1 opts url where
    p: "page_pdf_io E url opts w1 = (w', Inr ())" and o: "pdf_path opts = outputPath"
    unfolding renderPdf_def Let_def
    by (auto simp: bind_io_Inr split: prod.splits dest!: attempt_Inr)
  from page_pdf_io_Inr [OF p] o show ?thesis by blast
qed

lemma producePdf_Inr:
  assumes "producePdf E fileBuffer originalFilename outDir fpc preserve w = (w', Inr (b, p))"
  shows "p = path_join outDir (replaceDocx originalFilename)"
    and "files w' p = Some b"
    and "\<exists>wk url opts. page_pdf E wk url opts = Inr b"
proof -
  from assms obtain w3 w4 w5 tempDir tempHtmlPath u where
    r: "renderPdf E tempHtmlPath (path_join outDir (replaceDocx originalFilename)) fpc preserve w3
          = (w4, Inr u)"
    and c: "cleanUp E tempDir w4 = (w5, Inr ())"
    and f: "fs_readFile E (path_join outDir (replaceDocx originalFilename)) w5 = (w', Inr b)"
    and p: "p = path_join outDir (replaceDocx originalFilename)"
    unfolding producePdf_def Let_def
    by (auto simp: bind_io_Inr return_io_def)
  show "p = path_join outDir (replaceDocx originalFilename)" by (rule p)
  from fs_readFile_Inr [OF f] have w: "w' = w5" and fb: "files w5 p = Some b"
    unfolding p by simp_all
  show "files w' p = Some b" using w fb by simp
  from cleanUp_files [OF c fb] have "files w4 p = Some b" .
  moreover from renderPdf_Inr [OF r] obtain wk url opts b' where
    "page_pdf E wk url opts = Inr b'" "files w4 p = Some b'" unfolding p by blast
  ultimately show "\<exists>wk url opts. page_pdf E wk url opts = Inr b" by auto
qed

lemma convertDocxToPdf_Inr:
  "convertDocxToPdf E fileBuffer originalFilename opts fo w = (w', Inr r) \<longleftrightarrow>
     (\<exists>w1 b p. producePdf E fileBuffer originalFilename (outputDir_of E opts)
                  (finalPageConfig_of fo) (preserveHeaders_of fo) w = (w1, Inr (b, p)) \<and>
               packageResult (returnType_of opts) b p w1 = (w', Inr r))"
  by (auto simp: convertDocxToPdf_def convertDocxToPdf_try_def try_catch_def bind_io_def
        console_error_def throw_io_def split: prod.splits sum.splits)

lemma convertDocxToPdf_catch:
  "convertDocxToPdf_try E fileBuffer originalFilename opts fo w = (w1, Inl e) \<Longrightarrow>
   convertDocxToPdf E fileBuffer originalFilename opts fo w =
     (w1\<lparr>console := console w1 @ [ConsoleError ''Error converting DOCX to PDF:'' e]\<rparr>,
      Inl (Error (''Failed to convert DOCX document to PDF: '' @ message e)))"
  by (simp add: convertDocxToPdf_def try_catch_def bind_io_def console_error_def throw_io_def)

lemma packageResult_Inr:
  "packageResult rt b p w = (w', Inr r) \<Longrightarrow>
     w' = w \<and>
     ((rt = ''buffer'' \<and> r = \<lparr>buffer = Some b, base64 = None, filename = path_basename p\<rparr>) \<or>
      (rt = ''file'' \<and> r = \<lparr>buffer = None, base64 = None, filename = p\<rparr>) \<or>
      (rt = ''base64'' \<and>
         r = \<lparr>buffer = None, base64 = Some (toBase64 b), filename = path_basename p\<rparr>))"
  by (auto simp: packageResult_def return_io_def throw_io_def Let_def split: if_splits)

lemma suggestFormat_cases:
  "suggestFormat n = (if n \<le> 500 then ''A4'' else if n \<le> 3000 then ''Letter'' else ''A4'')"
  by (simp add: suggestFormat_def)

lemma extract_try_success:
  assumes "extractDocumentMetadata_try E fileBuffer w = (w', Inr md)"
  shows "\<exists>p v ms. mammoth_extractRawText E w' p = Inr (v, ms) \<and> contentLength md = length v
           \<and> suggestedFormat md = suggestFormat (length v) \<and> messages md = ms"
  using assms
  by (auto simp: extractDocumentMetadata_try_def bind_io_Inr Let_def ask_def return_io_def
        split: prod.splits) blast

section \<open>Evaluating the model\<close>

lemmas run_defs =
  bind_io_def return_io_def throw_io_def try_catch_def console_log_def console_warn_def
  console_error_def attempt_def ask_def fs_mkdtemp_def fs_writeFile_def fs_readFile_def
  fs_rm_def page_pdf_io_def under_def path_join_def path_normalize_def path_basename_def
  replaceDocx_def loadDocument_def extractStructure_def writeLayout_def renderPdf_def
  cleanUp_def producePdf_def packageResult_def returnType_of_def outputDir_of_def
  preserveHeaders_of_def convertDocxToPdf_try_def convertDocxToPdf_def
  extractDocumentMetadata_try_def extractDocumentMetadata_def smartConvertDocxToPdf_def
  smartFormatOptions_def defaultGuess_def suggestFormat_def
  env0_def world0_def opts0_def fo0_def env_text_def env_nobrowser_def env_stamped_def isZip_def
  sampleDocx_def notDocx_def Let_def



section \<open>The replaced suffix\<close>

lemma matchesDocx_iff:
  "matchesDocx ext \<longleftrightarrow>
     (\<exists>c1 c2 c3 c4. ext = [CHR ''.'', c1, c2, c3, c4] \<and> c1 \<in> {CHR ''d'', CHR ''D''} \<and>
        c2 \<in> {CHR ''o'', CHR ''O''} \<and> c3 \<in> {CHR ''c'', CHR ''C''} \<and> c4 \<in> {CHR ''x'', CHR ''X''})"
  by (induction ext rule: matchesDocx.induct) auto

lemma replaceDocx_match:
  assumes "c1 \<in> {CHR ''d'', CHR ''D''}" "c2 \<in> {CHR ''o'', CHR ''O''}"
    "c3 \<in> {CHR ''c'', CHR ''C''}" "c4 \<in> {CHR ''x'', CHR ''X''}"
  shows "replaceDocx (stem @ [CHR ''.'', c1, c2, c3, c4]) = stem @ ''.pdf''"
proof -
  have "matchesDocx [CHR ''.'', c1, c2, c3, c4]"
    using assms by (subst matchesDocx_iff) blast
  then show ?thesis by (simp add: replaceDocx_def)
qed

lemma replaceDocx_other:
  assumes "\<not> (\<exists>stem c1 c2 c3 c4. fn = stem @ [CHR ''.'', c1, c2, c3, c4] \<and>
               c1 \<in> {CHR ''d'', CHR ''D''} \<and> c2 \<in> {CHR ''o'', CHR ''O''} \<and>
               c3 \<in> {CHR ''c'', CHR ''C''} \<and> c4 \<in> {CHR ''x'', CHR ''X''})"
  shows "replaceDocx fn = fn"
proof (rule ccontr)
  assume "replaceDocx fn \<noteq> fn"
  then have m: "matchesDocx (drop (length fn - 5) fn)"
    by (auto simp: replaceDocx_def split: if_splits)
  then obtain c1 c2 c3 c4 where
    d: "drop (length fn - 5) fn = [CHR ''.'', c1, c2, c3, c4]"
    and c: "c1 \<in> {CHR ''d'', CHR ''D''}" "c2 \<in> {CHR ''o'', CHR ''O''}"
      "c3 \<in> {CHR ''c'', CHR ''C''}" "c4 \<in> {CHR ''x'', CHR ''X''}"
    unfolding matchesDocx_iff by blast
  have "fn = take (length fn - 5) fn @ [CHR ''.'', c1, c2, c3, c4]"
    using append_take_drop_id [of "length fn - 5" fn] d by simp
  then show False using assms c by blast
qed


section \<open>Metadata extraction\<close>

text \<open>
  Claim C3. When the text extraction of \<open>extractDocumentMetadata\<close> succeeds, the call
  returns the guess built from the extracted text, whose content length is the length
  \<open>L\<close> of that text and whose suggested format is \<open>A4\<close> for \<open>L \<le> 500\<close>, \<open>Letter\<close>
  for \<open>500 < L \<le> 3000\<close> and \<open>A4\<close> for \<open>L > 3000\<close>.
\<close>

theorem format_selection:
  assumes "extractDocumentMetadata_try E fileBuffer w = (w', Inr md)"
  shows "extractDocumentMetadata E fileBuffer w = (w', Inr md) \<and>
         (\<exists>p v ms. mammoth_extractRawText E w' p = Inr (v, ms) \<and> contentLength md = length v \<and>
            (length v \<le> 500 \<longrightarrow> suggestedFormat md = ''A4'') \<and>
            (500 < length v \<and> length v \<le> 3000 \<longrightarrow> suggestedFormat md = ''Letter'') \<and>
            (3000 < length v \<longrightarrow> suggestedFormat md = ''A4''))"
proof -
  from extract_try_success [OF assms] obtain p v ms where
    h: "mammoth_extractRawText E w' p = Inr (v, ms)" "contentLength md = length v"
       "suggestedFormat md = suggestFormat (length v)"
    by blast
  have "extractDocumentMetadata E fileBuffer w = (w', Inr md)"
    using assms by (simp add: extractDocumentMetadata_def try_catch_def)
  moreover have "(length v \<le> 500 \<longrightarrow> suggestedFormat md = ''A4'') \<and>
            (500 < length v \<and> length v \<le> 3000 \<longrightarrow> suggestedFormat md = ''Letter'') \<and>
            (3000 < length v \<longrightarrow> suggestedFormat md = ''A4'')"
    using h(3) by (simp add: suggestFormat_cases)
  ultimately show ?thesis using h(1,2) by blast
qed

theorem format_selection_witness:
  "extractDocumentMetadata_try (env_text 3000) sampleDocx world0 =
     (\<lparr>dirs = {''/tmp/doc-meta-aB3xYz'', ''/tmp''},
       files = [''/tmp/doc-meta-aB3xYz/temp.docx'' \<mapsto> sampleDocx], console = []\<rparr>,
      Inr \<lparr>suggestedFormat = ''Letter'', contentLength = 3000, hasHeaders = False,
           hasFooters = False, messages = []\<rparr>) \<and>
   extractDocumentMetadata (env_text 3000) sampleDocx world0 =
     (\<lparr>dirs = {''/tmp/doc-meta-aB3xYz'', ''/tmp''},
       files = [''/tmp/doc-meta-aB3xYz/temp.docx'' \<mapsto> sampleDocx], console = []\<rparr>,
      Inr \<lparr>suggestedFormat = ''Letter'', contentLength = 3000, hasHeaders = False,
           hasFooters = False, messages = []\<rparr>)"
proof -
  have h: "extractDocumentMetadata_try (env_text 3000) sampleDocx world0 =
     (\<lparr>dirs = {''/tmp/doc-meta-aB3xYz'', ''/tmp''},
       files = [''/tmp/doc-meta-aB3xYz/temp.docx'' \<mapsto> sampleDocx], console = []\<rparr>,
      Inr \<lparr>suggestedFormat = ''Letter'', contentLength = 3000, hasHeaders = False,
           hasFooters = False, messages = []\<rparr>)"
    by (simp add: run_defs)
  from format_selection [OF h] h show ?thesis by blast
qed

text \<open>
  Claim C4. \<open>extractDocumentMetadata\<close> never throws: for every buffer, environment and
  world it returns a guess, and whenever anything inside its \<open>try\<close> block fails (the
  temporary directory, the write, the DOCX library on a buffer that is no DOCX file) the
  failure is logged and the guess returned is exactly the default one.
\<close>

theorem extractDocumentMetadata_never_throws:
  "(\<exists>w' md. extractDocumentMetadata E fileBuffer w = (w', Inr md)) \<and>
   (\<forall>w1 e. extractDocumentMetadata_try E fileBuffer w = (w1, Inl e) \<longrightarrow>
      extractDocumentMetadata E fileBuffer w =
        (w1\<lparr>console := console w1 @ [ConsoleError ''Failed to extract document metadata:'' e]\<rparr>,
         Inr \<lparr>suggestedFormat = ''A4'', contentLength = 0, hasHeaders = False,
              hasFooters = False, messages = []\<rparr>))"
  by (cases "extractDocumentMetadata_try E fileBuffer w")
     (auto simp: extractDocumentMetadata_def try_catch_def bind_io_def console_error_def
        return_io_def defaultGuess_def split: sum.splits)

theorem extractDocumentMetadata_never_throws_witness:
  "extractDocumentMetadata_try env0 notDocx world0 =
     (\<lparr>dirs = {''/tmp/doc-meta-aB3xYz'', ''/tmp''},
       files = [''/tmp/doc-meta-aB3xYz/temp.docx'' \<mapsto> notDocx], console = []\<rparr>, Inl zipError) \<and>
   extractDocumentMetadata env0 notDocx world0 =
     (\<lparr>dirs = {''/tmp/doc-meta-aB3xYz'', ''/tmp''},
       files = [''/tmp/doc-meta-aB3xYz/temp.docx'' \<mapsto> notDocx],
       console = [ConsoleError ''Failed to extract document metadata:'' zipError]\<rparr>,
      Inr \<lparr>suggestedFormat = ''A4'', contentLength = 0, hasHeaders = False,
           hasFooters = False, messages = []\<rparr>)"
proof -
  have h: "extractDocumentMetadata_try env0 notDocx world0 =
     (\<lparr>dirs = {''/tmp/doc-meta-aB3xYz'', ''/tmp''},
       files = [''/tmp/doc-meta-aB3xYz/temp.docx'' \<mapsto> notDocx], console = []\<rparr>, Inl zipError)"
    by (simp add: run_defs)
  from extractDocumentMetadata_never_throws [of env0 notDocx world0] h show ?thesis by simp
qed

text \<open>
  Claim C2 does not hold of the code. \<open>extractDocumentMetadata\<close> never removes the
  directory it creates: on the sample DOCX buffer the call returns its guess and the
  directory \<open>/tmp/doc-meta-aB3xYz\<close>, absent before the call, exists after it together
  with the copy of the buffer. \<open>convertDocxToPdf\<close> removes its directory only when
  every stage has succeeded: on a buffer the DOCX library rejects, the call throws and
  \<open>/tmp/doc-convert-aB3xYz\<close> is left behind.
\<close>

theorem temporary_directory_left_behind:
  "''/tmp/doc-meta-aB3xYz'' \<notin> dirs world0 \<and>
   snd (extractDocumentMetadata env0 sampleDocx world0) =
     Inr \<lparr>suggestedFormat = ''A4'', contentLength = 5, hasHeaders = False, hasFooters = False,
          messages = []\<rparr> \<and>
   ''/tmp/doc-meta-aB3xYz'' \<in> dirs (fst (extractDocumentMetadata env0 sampleDocx world0)) \<and>
   files (fst (extractDocumentMetadata env0 sampleDocx world0)) ''/tmp/doc-meta-aB3xYz/temp.docx''
     = Some sampleDocx \<and>
   ''/tmp/doc-convert-aB3xYz'' \<notin> dirs world0 \<and>
   snd (convertDocxToPdf env0 notDocx ''sample.docx'' opts0 fo0 world0) =
     Inl (Error (''Failed to convert DOCX document to PDF: '' @ message zipError)) \<and>
   ''/tmp/doc-convert-aB3xYz'' \<in> dirs (fst (convertDocxToPdf env0 notDocx ''sample.docx'' opts0 fo0 world0))"
  by (simp add: run_defs)

section \<open>Results of a conversion\<close>

text \<open>
  Claim C7. A successful call of \<open>convertDocxToPdf\<close> returns exactly one of three
  shapes, chosen by the requested return type alone: when none or \<open>buffer\<close> is
  requested, the PDF bytes and the base name of the output path; for \<open>file\<close>, the
  output path only; for \<open>base64\<close>, the encoded PDF and the base name. The PDF is the
  content of the file at the output path.
\<close>

theorem one_output_representation:
  assumes "convertDocxToPdf E fileBuffer originalFilename opts fo w = (w', Inr r)"
  shows "\<exists>pdfBuffer outputPath.
           outputPath =
             path_join (case outputDir opts of None \<Rightarrow> os_tmpdir E | Some d \<Rightarrow> d)
               (replaceDocx originalFilename) \<and>
           files w' outputPath = Some pdfBuffer \<and>
           (((returnType opts = None \<or> returnType opts = Some ''buffer'') \<and>
               r = \<lparr>buffer = Some pdfBuffer, base64 = None, filename = path_basename outputPath\<rparr>) \<or>
            (returnType opts = Some ''file'' \<and>
               r = \<lparr>buffer = None, base64 = None, filename = outputPath\<rparr>) \<or>
            (returnType opts = Some ''base64'' \<and>
               r = \<lparr>buffer = None, base64 = Some (toBase64 pdfBuffer),
                    filename = path_basename outputPath\<rparr>))"
proof -
  from assms obtain w1 b p where
    pr: "producePdf E fileBuffer originalFilename (outputDir_of E opts) (finalPageConfig_of fo)
           (preserveHeaders_of fo) w = (w1, Inr (b, p))"
    and pk: "packageResult (returnType_of opts) b p w1 = (w', Inr r)"
    unfolding convertDocxToPdf_Inr by blast
  from packageResult_Inr [OF pk] have w: "w' = w1" by simp
  have rt: "returnType_of opts = ''buffer'' \<longleftrightarrow>
              returnType opts = None \<or> returnType opts = Some ''buffer''"
    "returnType_of opts = ''file'' \<longleftrightarrow> returnType opts = Some ''file''"
    "returnType_of opts = ''base64'' \<longleftrightarrow> returnType opts = Some ''base64''"
    by (auto simp: returnType_of_def split: option.splits)
  have p: "p = path_join (case outputDir opts of None \<Rightarrow> os_tmpdir E | Some d \<Rightarrow> d)
               (replaceDocx originalFilename)"
    using producePdf_Inr(1) [OF pr] by (simp add: outputDir_of_def)
  have f: "files w' p = Some b" using producePdf_Inr(2) [OF pr] w by simp
  have k: "((returnType opts = None \<or> returnType opts = Some ''buffer'') \<and>
               r = \<lparr>buffer = Some b, base64 = None, filename = path_basename p\<rparr>) \<or>
            (returnType opts = Some ''file'' \<and>
               r = \<lparr>buffer = None, base64 = None, filename = p\<rparr>) \<or>
            (returnType opts = Some ''base64'' \<and>
               r = \<lparr>buffer = None, base64 = Some (toBase64 b), filename = path_basename p\<rparr>)"
    using packageResult_Inr [OF pk] unfolding rt by blast
  show ?thesis
    by (rule exI [of _ b], rule exI [of _ p]) (use p f k in blast)
qed

text \<open>On the sample document, for each of the four forms of the request.\<close>

theorem one_output_representation_witness:
  "convertDocxToPdf env0 sampleDocx ''sample.docx''
       \<lparr>returnType = None, outputDir = None\<rparr> fo0 world0 =
     (fst (convertDocxToPdf env0 sampleDocx ''sample.docx''
       \<lparr>returnType = None, outputDir = None\<rparr> fo0 world0),
      Inr \<lparr>buffer = Some samplePdf, base64 = None, filename = ''sample.pdf''\<rparr>) \<and>
   files (fst (convertDocxToPdf env0 sampleDocx ''sample.docx''
       \<lparr>returnType = None, outputDir = None\<rparr> fo0 world0))
     ''/tmp/sample.pdf'' \<noteq> None \<and>
   convertDocxToPdf env0 sampleDocx ''sample.docx''
       \<lparr>returnType = Some ''buffer'', outputDir = None\<rparr> fo0 world0 =
     (fst (convertDocxToPdf env0 sampleDocx ''sample.docx''
       \<lparr>returnType = Some ''buffer'', outputDir = None\<rparr> fo0 world0),
      Inr \<lparr>buffer = Some samplePdf, base64 = None, filename = ''sample.pdf''\<rparr>) \<and>
   files (fst (convertDocxToPdf env0 sampleDocx ''sample.docx''
       \<lparr>returnType = Some ''buffer'', outputDir = None\<rparr> fo0 world0))
     ''/tmp/sample.pdf'' \<noteq> None \<and>
   convertDocxToPdf env0 sampleDocx ''sample.docx''
       \<lparr>returnType = Some ''file'', outputDir = None\<rparr> fo0 world0 =
     (fst (convertDocxToPdf env0 sampleDocx ''sample.docx''
       \<lparr>returnType = Some ''file'', outputDir = None\<rparr> fo0 world0),
      Inr \<lparr>buffer = None, base64 = None, filename = ''/tmp/sample.pdf''\<rparr>) \<and>
   files (fst (convertDocxToPdf env0 sampleDocx ''sample.docx''
       \<lparr>returnType = Some ''file'', outputDir = None\<rparr> fo0 world0))
     ''/tmp/sample.pdf'' \<noteq> None \<and>
   convertDocxToPdf env0 sampleDocx ''sample.docx''
       \<lparr>returnType = Some ''base64'', outputDir = None\<rparr> fo0 world0 =
     (fst (convertDocxToPdf env0 sampleDocx ''sample.docx''
       \<lparr>returnType = Some ''base64'', outputDir = None\<rparr> fo0 world0),
      Inr \<lparr>buffer = None, base64 = Some ''JVBERi0='', filename = ''sample.pdf''\<rparr>) \<and>
   files (fst (convertDocxToPdf env0 sampleDocx ''sample.docx''
       \<lparr>returnType = Some ''base64'', outputDir = None\<rparr> fo0 world0))
     ''/tmp/sample.pdf'' \<noteq> None"
proof -
  have sn: "snd (convertDocxToPdf env0 sampleDocx ''sample.docx''
       \<lparr>returnType = None, outputDir = None\<rparr> fo0 world0) =
      Inr \<lparr>buffer = Some samplePdf, base64 = None, filename = ''sample.pdf''\<rparr>"
    by (simp add: run_defs samplePdf_def b64char_def b64chars_def)
  have hn: "convertDocxToPdf env0 sampleDocx ''sample.docx''
       \<lparr>returnType = None, outputDir = None\<rparr> fo0 world0 =
     (fst (convertDocxToPdf env0 sampleDocx ''sample.docx''
       \<lparr>returnType = None, outputDir = None\<rparr> fo0 world0),
      Inr \<lparr>buffer = Some samplePdf, base64 = None, filename = ''sample.pdf''\<rparr>)"
    using sn by (simp add: prod_eq_iff)
  from one_output_representation [OF hn]
  have "\<exists>b. files (fst (convertDocxToPdf env0 sampleDocx ''sample.docx''
       \<lparr>returnType = None, outputDir = None\<rparr> fo0 world0))
          (path_join (case outputDir \<lparr>returnType = None, outputDir = None\<rparr> of
                        None \<Rightarrow> os_tmpdir env0 | Some d \<Rightarrow> d)
             (replaceDocx ''sample.docx'')) = Some b"
    by blast
  then have qn: "files (fst (convertDocxToPdf env0 sampleDocx ''sample.docx''
       \<lparr>returnType = None, outputDir = None\<rparr> fo0 world0))
     ''/tmp/sample.pdf'' \<noteq> None"
    by (auto simp: path_join_def path_normalize_def replaceDocx_def env0_def)
  have sb: "snd (convertDocxToPdf env0 sampleDocx ''sample.docx''
       \<lparr>returnType = Some ''buffer'', outputDir = None\<rparr> fo0 world0) =
      Inr \<lparr>buffer = Some samplePdf, base64 = None, filename = ''sample.pdf''\<rparr>"
    by (simp add: run_defs samplePdf_def b64char_def b64chars_def)
  have hb: "convertDocxToPdf env0 sampleDocx ''sample.docx''
       \<lparr>returnType = Some ''buffer'', outputDir = None\<rparr> fo0 world0 =
     (fst (convertDocxToPdf env0 sampleDocx ''sample.docx''
       \<lparr>returnType = Some ''buffer'', outputDir = None\<rparr> fo0 world0),
      Inr \<lparr>buffer = Some samplePdf, base64 = None, filename = ''sample.pdf''\<rparr>)"
    using sb by (simp add: prod_eq_iff)
  from one_output_representation [OF hb]
  have "\<exists>b. files (fst (convertDocxToPdf env0 sampleDocx ''sample.docx''
       \<lparr>returnType = Some ''buffer'', outputDir = None\<rparr> fo0 world0))
          (path_join (case outputDir \<lparr>returnType = Some ''buffer'', outputDir = None\<rparr> of
                        None \<Rightarrow> os_tmpdir env0 | Some d \<Rightarrow> d)
             (replaceDocx ''sample.docx'')) = Some b"
    by blast
  then have qb: "files (fst (convertDocxToPdf env0 sampleDocx ''sample.docx''
       \<lparr>returnType = Some ''buffer'', outputDir = None\<rparr> fo0 world0))
     ''/tmp/sample.pdf'' \<noteq> None"
    by (auto simp: path_join_def path_normalize_def replaceDocx_def env0_def)
  have sf: "snd (convertDocxToPdf env0 sampleDocx ''sample.docx''
       \<lparr>returnType = Some ''file'', outputDir = None\<rparr> fo0 world0) =
      Inr \<lparr>buffer = None, base64 = None, filename = ''/tmp/sample.pdf''\<rparr>"
    by (simp add: run_defs samplePdf_def b64char_def b64chars_def)
  have hf: "convertDocxToPdf env0 sampleDocx ''sample.docx''
       \<lparr>returnType = Some ''file'', outputDir = None\<rparr> fo0 world0 =
     (fst (convertDocxToPdf env0 sampleDocx ''sample.docx''
       \<lparr>returnType = Some ''file'', outputDir = None\<rparr> fo0 world0),
      Inr \<lparr>buffer = None, base64 = None, filename = ''/tmp/sample.pdf''\<rparr>)"
    using sf by (simp add: prod_eq_iff)
  from one_output_representation [OF hf]
  have "\<exists>b. files (fst (convertDocxToPdf env0 sampleDocx ''sample.docx''
       \<lparr>returnType = Some ''file'', outputDir = None\<rparr> fo0 world0))
          (path_join (case outputDir \<lparr>returnType = Some ''file'', outputDir = None\<rparr> of
                        None \<Rightarrow> os_tmpdir env0 | Some d \<Rightarrow> d)
             (replaceDocx ''sample.docx'')) = Some b"
    by blast
  then have qf: "files (fst (convertDocxToPdf env0 sampleDocx ''sample.docx''
       \<lparr>returnType = Some ''file'', outputDir = None\<rparr> fo0 world0))
     ''/tmp/sample.pdf'' \<noteq> None"
    by (auto simp: path_join_def path_normalize_def replaceDocx_def env0_def)
  have ss: "snd (convertDocxToPdf env0 sampleDocx ''sample.docx''
       \<lparr>returnType = Some ''base64'', outputDir = None\<rparr> fo0 world0) =
      Inr \<lparr>buffer = None, base64 = Some ''JVBERi0='', filename = ''sample.pdf''\<rparr>"
    by (simp add: run_defs samplePdf_def b64char_def b64chars_def)
  have hs: "convertDocxToPdf env0 sampleDocx ''sample.docx''
       \<lparr>returnType = Some ''base64'', outputDir = None\<rparr> fo0 world0 =
     (fst (convertDocxToPdf env0 sampleDocx ''sample.docx''
       \<lparr>returnType = Some ''base64'', outputDir = None\<rparr> fo0 world0),
      Inr \<lparr>buffer = None, base64 = Some ''JVBERi0='', filename = ''sample.pdf''\<rparr>)"
    using ss by (simp add: prod_eq_iff)
  from one_output_representation [OF hs]
  have "\<exists>b. files (fst (convertDocxToPdf env0 sampleDocx ''sample.docx''
       \<lparr>returnType = Some ''base64'', outputDir = None\<rparr> fo0 world0))
          (path_join (case outputDir \<lparr>returnType = Some ''base64'', outputDir = None\<rparr> of
                        None \<Rightarrow> os_tmpdir env0 | Some d \<Rightarrow> d)
             (replaceDocx ''sample.docx'')) = Some b"
    by blast
  then have qs: "files (fst (convertDocxToPdf env0 sampleDocx ''sample.docx''
       \<lparr>returnType = Some ''base64'', outputDir = None\<rparr> fo0 world0))
     ''/tmp/sample.pdf'' \<noteq> None"
    by (auto simp: path_join_def path_normalize_def replaceDocx_def env0_def)
  show ?thesis using hn qn hb qb hf qf hs qs by blast
qed

text \<open>
  Claim C5, amended. If the call with return type \<open>base64\<close> succeeds, the string it
  returns is the encoding of the PDF read back in that run: decoding it yields the bytes
  of the file at the output path. The call with return type \<open>buffer\<close> on the same input
  and options, started in the same state of the environment, succeeds too, with the
  same filename, and its buffer is what decoding the string yields.
\<close>

theorem base64_decodes_to_buffer:
  assumes "convertDocxToPdf E fileBuffer originalFilename (opts\<lparr>returnType := Some ''base64''\<rparr>) fo w
             = (w', Inr r)"
  shows "\<exists>s b. base64 r = Some s \<and> s = toBase64 b \<and> fromBase64 s = b \<and>
           files w' (path_join (case outputDir opts of None \<Rightarrow> os_tmpdir E | Some d \<Rightarrow> d)
                       (replaceDocx originalFilename)) = Some b \<and>
           convertDocxToPdf E fileBuffer originalFilename (opts\<lparr>returnType := Some ''buffer''\<rparr>) fo w
             = (w', Inr \<lparr>buffer = Some b, base64 = None, filename = filename r\<rparr>)"
proof -
  have od: "outputDir_of E (opts\<lparr>returnType := Some ''base64''\<rparr>) = outputDir_of E opts"
    "outputDir_of E (opts\<lparr>returnType := Some ''buffer''\<rparr>) = outputDir_of E opts"
    by (simp_all add: outputDir_of_def)
  have rt: "returnType_of (opts\<lparr>returnType := Some ''base64''\<rparr>) = ''base64''"
    "returnType_of (opts\<lparr>returnType := Some ''buffer''\<rparr>) = ''buffer''"
    by (simp_all add: returnType_of_def)
  from assms obtain w1 b p where
    pr: "producePdf E fileBuffer originalFilename (outputDir_of E opts) (finalPageConfig_of fo)
           (preserveHeaders_of fo) w = (w1, Inr (b, p))"
    and pk: "packageResult ''base64'' b p w1 = (w', Inr r)"
    unfolding convertDocxToPdf_Inr od rt by blast
  from packageResult_Inr [OF pk] have w: "w' = w1"
    and r: "r = \<lparr>buffer = None, base64 = Some (toBase64 b), filename = path_basename p\<rparr>"
    by simp_all
  have f: "files w' (path_join (case outputDir opts of None \<Rightarrow> os_tmpdir E | Some d \<Rightarrow> d)
                       (replaceDocx originalFilename)) = Some b"
    using producePdf_Inr(1,2) [OF pr] w by (simp add: outputDir_of_def)
  have "packageResult ''buffer'' b p w1 =
          (w', Inr \<lparr>buffer = Some b, base64 = None, filename = filename r\<rparr>)"
    by (simp add: packageResult_def return_io_def w r)
  then have "convertDocxToPdf E fileBuffer originalFilename (opts\<lparr>returnType := Some ''buffer''\<rparr>)
               fo w = (w', Inr \<lparr>buffer = Some b, base64 = None, filename = filename r\<rparr>)"
    unfolding convertDocxToPdf_Inr od rt using pr by blast
  then show ?thesis using r f by (simp add: fromBase64_toBase64)
qed

text \<open>On the sample document.\<close>

theorem base64_decodes_to_buffer_witness:
  "convertDocxToPdf env0 sampleDocx ''sample.docx'' (opts0\<lparr>returnType := Some ''base64''\<rparr>) fo0 world0 =
     (fst (convertDocxToPdf env0 sampleDocx ''sample.docx'' (opts0\<lparr>returnType := Some ''base64''\<rparr>)
        fo0 world0),
      Inr \<lparr>buffer = None, base64 = Some ''JVBERi0='', filename = ''sample.pdf''\<rparr>) \<and>
   snd (convertDocxToPdf env0 sampleDocx ''sample.docx'' (opts0\<lparr>returnType := Some ''buffer''\<rparr>) fo0
     world0) =
     Inr \<lparr>buffer = Some (fromBase64 ''JVBERi0=''), base64 = None, filename = ''sample.pdf''\<rparr>"
proof -
  have s: "snd (convertDocxToPdf env0 sampleDocx ''sample.docx''
             (opts0\<lparr>returnType := Some ''base64''\<rparr>) fo0 world0) =
           Inr \<lparr>buffer = None, base64 = Some ''JVBERi0='', filename = ''sample.pdf''\<rparr>"
    by (simp add: run_defs samplePdf_def b64char_def b64chars_def)
  have h: "convertDocxToPdf env0 sampleDocx ''sample.docx'' (opts0\<lparr>returnType := Some ''base64''\<rparr>)
             fo0 world0 =
     (fst (convertDocxToPdf env0 sampleDocx ''sample.docx'' (opts0\<lparr>returnType := Some ''base64''\<rparr>)
        fo0 world0),
      Inr \<lparr>buffer = None, base64 = Some ''JVBERi0='', filename = ''sample.pdf''\<rparr>)"
    using s by (simp add: prod_eq_iff)
  from base64_decodes_to_buffer [OF h] obtain s b where
    x: "base64 \<lparr>buffer = None, base64 = Some ''JVBERi0='', filename = ''sample.pdf''\<rparr> = Some s"
    and y: "fromBase64 s = b"
    and c: "convertDocxToPdf env0 sampleDocx ''sample.docx'' (opts0\<lparr>returnType := Some ''buffer''\<rparr>)
              fo0 world0 =
       (fst (convertDocxToPdf env0 sampleDocx ''sample.docx'' (opts0\<lparr>returnType := Some ''base64''\<rparr>)
          fo0 world0),
        Inr \<lparr>buffer = Some b, base64 = None,
             filename = filename \<lparr>buffer = None, base64 = Some ''JVBERi0='',
                                   filename = ''sample.pdf''\<rparr>\<rparr>)"
    by blast
  from x have "s = ''JVBERi0=''" by simp
  with y have b: "b = fromBase64 ''JVBERi0=''" by blast
  have "snd (convertDocxToPdf env0 sampleDocx ''sample.docx''
               (opts0\<lparr>returnType := Some ''buffer''\<rparr>) fo0 world0) =
          Inr \<lparr>buffer = Some b, base64 = None, filename = ''sample.pdf''\<rparr>"
    unfolding c by simp
  then have d: "snd (convertDocxToPdf env0 sampleDocx ''sample.docx''
               (opts0\<lparr>returnType := Some ''buffer''\<rparr>) fo0 world0) =
          Inr \<lparr>buffer = Some (fromBase64 ''JVBERi0=''), base64 = None,
               filename = ''sample.pdf''\<rparr>"
    unfolding b .
  show ?thesis using h d by (rule conjI)
qed

text \<open>
  The claim as stated, for two calls on the same input and options, fails when the PDF
  depends on the state it is rendered in: the call with return type \<open>base64\<close> followed
  by the call with return type \<open>buffer\<close> both succeed, and the decoded string differs
  from the buffer in its last byte.
\<close>

theorem base64_then_buffer_counterexample:
  "snd (convertDocxToPdf env_stamped sampleDocx ''sample.docx''
          (opts0\<lparr>returnType := Some ''base64''\<rparr>) fo0 world0) =
     Inr \<lparr>buffer = None, base64 = Some ''JVBERi0x'', filename = ''sample.pdf''\<rparr> \<and>
   snd (convertDocxToPdf env_stamped sampleDocx ''sample.docx''
          (opts0\<lparr>returnType := Some ''buffer''\<rparr>) fo0
          (fst (convertDocxToPdf env_stamped sampleDocx ''sample.docx''
                  (opts0\<lparr>returnType := Some ''base64''\<rparr>) fo0 world0))) =
     Inr \<lparr>buffer = Some [0x25, 0x50, 0x44, 0x46, 0x2D, 0x32], base64 = None,
          filename = ''sample.pdf''\<rparr> \<and>
   fromBase64 ''JVBERi0x'' = [0x25, 0x50, 0x44, 0x46, 0x2D, 0x31] \<and>
   fromBase64 ''JVBERi0x'' \<noteq> [0x25, 0x50, 0x44, 0x46, 0x2D, 0x32]"
proof -
  have a: "snd (convertDocxToPdf env_stamped sampleDocx ''sample.docx''
          (opts0\<lparr>returnType := Some ''base64''\<rparr>) fo0 world0) =
     Inr \<lparr>buffer = None, base64 = Some ''JVBERi0x'', filename = ''sample.pdf''\<rparr>"
    by (simp add: run_defs samplePdf_def b64char_def b64chars_def)
  have b: "snd (convertDocxToPdf env_stamped sampleDocx ''sample.docx''
          (opts0\<lparr>returnType := Some ''buffer''\<rparr>) fo0
          (fst (convertDocxToPdf env_stamped sampleDocx ''sample.docx''
                  (opts0\<lparr>returnType := Some ''base64''\<rparr>) fo0 world0))) =
     Inr \<lparr>buffer = Some [0x25, 0x50, 0x44, 0x46, 0x2D, 0x32], base64 = None,
          filename = ''sample.pdf''\<rparr>"
    by (simp add: run_defs samplePdf_def)
  have c: "fromBase64 ''JVBERi0x'' = [0x25, 0x50, 0x44, 0x46, 0x2D, 0x31]"
    by (simp add: b64index_def b64chars_def)
  show ?thesis using a b unfolding c by simp
qed

section \<open>Failures of a conversion\<close>

lemma producePdf_extract_fails:
  assumes "loadDocument E fileBuffer w = (w1, Inr tempDir)"
    and "extractStructure E tempDir w1 = (w2, Inl e)"
  shows "producePdf E fileBuffer originalFilename outDir fpc preserve w = (w2, Inl e)"
  unfolding producePdf_def
  by (simp add: bind_io_def assms)

lemma producePdf_render_fails:
  assumes "loadDocument E fileBuffer w = (w1, Inr tempDir)"
    and "extractStructure E tempDir w1 = (w2, Inr htmlContent)"
    and "writeLayout E tempDir originalFilename fpc preserve htmlContent w2 = (w3, Inr tempHtmlPath)"
    and "renderPdf E tempHtmlPath (path_join outDir (replaceDocx originalFilename)) fpc preserve w3
           = (w4, Inl e)"
  shows "producePdf E fileBuffer originalFilename outDir fpc preserve w = (w4, Inl e)"
  unfolding producePdf_def
  by (simp add: bind_io_def assms Let_def)

text \<open>
  Claim C6. Every failure inside the \<open>try\<close> block of \<open>convertDocxToPdf\<close> is logged
  with \<open>console.error\<close> and thrown again as an error whose message is the generic
  conversion-failure text followed by the message of the original error; the outcome is
  that error and no result object. In particular this is what happens when the
  extraction stage fails after the document has been loaded, and when the render stage
  fails after extraction and layout have succeeded.
\<close>

theorem stage_failure_wrapped:
  "(convertDocxToPdf_try E fileBuffer originalFilename opts fo w = (w1, Inl e) \<longrightarrow>
      convertDocxToPdf E fileBuffer originalFilename opts fo w =
        (w1\<lparr>console := console w1 @ [ConsoleError ''Error converting DOCX to PDF:'' e]\<rparr>,
         Inl (Error (''Failed to convert DOCX document to PDF: '' @ message e)))) \<and>
   (loadDocument E fileBuffer w = (v1, Inr tempDir) \<and>
    extractStructure E tempDir v1 = (v2, Inl e2) \<longrightarrow>
      convertDocxToPdf E fileBuffer originalFilename opts fo w =
        (v2\<lparr>console := console v2 @ [ConsoleError ''Error converting DOCX to PDF:'' e2]\<rparr>,
         Inl (Error (''Failed to convert DOCX document to PDF: '' @ message e2)))) \<and>
   (loadDocument E fileBuffer w = (u1, Inr tempDir') \<and>
    extractStructure E tempDir' u1 = (u2, Inr htmlContent) \<and>
    writeLayout E tempDir' originalFilename (finalPageConfig_of fo) (preserveHeaders_of fo)
      htmlContent u2 = (u3, Inr tempHtmlPath) \<and>
    renderPdf E tempHtmlPath (path_join (outputDir_of E opts) (replaceDocx originalFilename))
      (finalPageConfig_of fo) (preserveHeaders_of fo) u3 = (u4, Inl e4) \<longrightarrow>
      convertDocxToPdf E fileBuffer originalFilename opts fo w =
        (u4\<lparr>console := console u4 @ [ConsoleError ''Error converting DOCX to PDF:'' e4]\<rparr>,
         Inl (Error (''Failed to convert DOCX document to PDF: '' @ message e4))))"
proof (intro conjI impI)
  assume "convertDocxToPdf_try E fileBuffer originalFilename opts fo w = (w1, Inl e)"
  then show "convertDocxToPdf E fileBuffer originalFilename opts fo w =
        (w1\<lparr>console := console w1 @ [ConsoleError ''Error converting DOCX to PDF:'' e]\<rparr>,
         Inl (Error (''Failed to convert DOCX document to PDF: '' @ message e)))"
    by (rule convertDocxToPdf_catch)
next
  assume a: "loadDocument E fileBuffer w = (v1, Inr tempDir) \<and>
    extractStructure E tempDir v1 = (v2, Inl e2)"
  have "convertDocxToPdf_try E fileBuffer originalFilename opts fo w = (v2, Inl e2)"
    unfolding convertDocxToPdf_try_def
    using producePdf_extract_fails [of E fileBuffer w v1 tempDir v2 e2] a
    by (simp add: bind_io_def)
  then show "convertDocxToPdf E fileBuffer originalFilename opts fo w =
        (v2\<lparr>console := console v2 @ [ConsoleError ''Error converting DOCX to PDF:'' e2]\<rparr>,
         Inl (Error (''Failed to convert DOCX document to PDF: '' @ message e2)))"
    by (rule convertDocxToPdf_catch)
next
  assume a: "loadDocument E fileBuffer w = (u1, Inr tempDir') \<and>
    extractStructure E tempDir' u1 = (u2, Inr htmlContent) \<and>
    writeLayout E tempDir' originalFilename (finalPageConfig_of fo) (preserveHeaders_of fo)
      htmlContent u2 = (u3, Inr tempHtmlPath) \<and>
    renderPdf E tempHtmlPath (path_join (outputDir_of E opts) (replaceDocx originalFilename))
      (finalPageConfig_of fo) (preserveHeaders_of fo) u3 = (u4, Inl e4)"
  have "convertDocxToPdf_try E fileBuffer originalFilename opts fo w = (u4, Inl e4)"
    unfolding convertDocxToPdf_try_def
    using producePdf_render_fails [of E fileBuffer w u1 tempDir' u2 htmlContent originalFilename
        "finalPageConfig_of fo" "preserveHeaders_of fo" u3 tempHtmlPath "outputDir_of E opts" u4 e4] a
    by (simp add: bind_io_def)
  then show "convertDocxToPdf E fileBuffer originalFilename opts fo w =
        (u4\<lparr>console := console u4 @ [ConsoleError ''Error converting DOCX to PDF:'' e4]\<rparr>,
         Inl (Error (''Failed to convert DOCX document to PDF: '' @ message e4)))"
    by (rule convertDocxToPdf_catch)
qed


theorem stage_failure_wrapped_witness:
  "loadDocument env0 notDocx world0 = (world_loaded notDocx, Inr ''/tmp/doc-convert-aB3xYz'') \<and>
   extractStructure env0 ''/tmp/doc-convert-aB3xYz'' (world_loaded notDocx) =
     (world_loaded notDocx, Inl zipError) \<and>
   convertDocxToPdf env0 notDocx ''sample.docx'' opts0 fo0 world0 =
     ((world_loaded notDocx)\<lparr>console := [ConsoleError ''Error converting DOCX to PDF:'' zipError]\<rparr>,
      Inl (Error ''Failed to convert DOCX document to PDF: Could not find the end of central directory. Is this a zip file?'')) \<and>
   loadDocument env_nobrowser sampleDocx world0 =
     (world_loaded sampleDocx, Inr ''/tmp/doc-convert-aB3xYz'') \<and>
   extractStructure env_nobrowser ''/tmp/doc-convert-aB3xYz'' (world_loaded sampleDocx) =
     (world_loaded sampleDocx, Inr ''<p>Hello</p>'') \<and>
   writeLayout env_nobrowser ''/tmp/doc-convert-aB3xYz'' ''sample.docx'' (finalPageConfig_of fo0)
     (preserveHeaders_of fo0) ''<p>Hello</p>'' (world_loaded sampleDocx) =
     (world_laid_out, Inr ''/tmp/doc-convert-aB3xYz/output.html'') \<and>
   renderPdf env_nobrowser ''/tmp/doc-convert-aB3xYz/output.html''
     (path_join (outputDir_of env_nobrowser opts0) (replaceDocx ''sample.docx''))
     (finalPageConfig_of fo0) (preserveHeaders_of fo0) world_laid_out =
     (world_laid_out, Inl launchError) \<and>
   convertDocxToPdf env_nobrowser sampleDocx ''sample.docx'' opts0 fo0 world0 =
     (world_laid_out\<lparr>console := [ConsoleError ''Error converting DOCX to PDF:'' launchError]\<rparr>,
      Inl (Error ''Failed to convert DOCX document to PDF: Failed to launch the browser process!''))"
proof -
  have a1: "loadDocument env0 notDocx world0 =
              (world_loaded notDocx, Inr ''/tmp/doc-convert-aB3xYz'')"
    by (simp add: run_defs world_loaded_def)
  have a2: "extractStructure env0 ''/tmp/doc-convert-aB3xYz'' (world_loaded notDocx) =
              (world_loaded notDocx, Inl zipError)"
    by (simp add: run_defs world_loaded_def)
  have b1: "loadDocument env_nobrowser sampleDocx world0 =
              (world_loaded sampleDocx, Inr ''/tmp/doc-convert-aB3xYz'')"
    by (simp add: run_defs world_loaded_def)
  have b2: "extractStructure env_nobrowser ''/tmp/doc-convert-aB3xYz'' (world_loaded sampleDocx) =
              (world_loaded sampleDocx, Inr ''<p>Hello</p>'')"
    by (simp add: run_defs world_loaded_def)
  have b3: "writeLayout env_nobrowser ''/tmp/doc-convert-aB3xYz'' ''sample.docx''
              (finalPageConfig_of fo0) (preserveHeaders_of fo0) ''<p>Hello</p>''
              (world_loaded sampleDocx) =
              (world_laid_out, Inr ''/tmp/doc-convert-aB3xYz/output.html'')"
    by (simp add: run_defs world_loaded_def world_laid_out_def fun_upd_twist)
  have b4: "renderPdf env_nobrowser ''/tmp/doc-convert-aB3xYz/output.html''
              (path_join (outputDir_of env_nobrowser opts0) (replaceDocx ''sample.docx''))
              (finalPageConfig_of fo0) (preserveHeaders_of fo0) world_laid_out =
              (world_laid_out, Inl launchError)"
    by (simp add: run_defs)
  have c1: "convertDocxToPdf env0 notDocx ''sample.docx'' opts0 fo0 world0 =
     ((world_loaded notDocx)\<lparr>console := console (world_loaded notDocx) @
         [ConsoleError ''Error converting DOCX to PDF:'' zipError]\<rparr>,
      Inl (Error (''Failed to convert DOCX document to PDF: '' @ message zipError)))"
    using stage_failure_wrapped [where E = env0 and fileBuffer = notDocx and w = world0
        and ?v1.0 = "world_loaded notDocx" and tempDir = "''/tmp/doc-convert-aB3xYz''"
        and ?v2.0 = "world_loaded notDocx" and ?e2.0 = zipError
        and originalFilename = "''sample.docx''" and opts = opts0 and fo = fo0] a1 a2
    by blast
  have c2: "convertDocxToPdf env_nobrowser sampleDocx ''sample.docx'' opts0 fo0 world0 =
     (world_laid_out\<lparr>console := console world_laid_out @
         [ConsoleError ''Error converting DOCX to PDF:'' launchError]\<rparr>,
      Inl (Error (''Failed to convert DOCX document to PDF: '' @ message launchError)))"
    using stage_failure_wrapped [where E = env_nobrowser and fileBuffer = sampleDocx
        and w = world0 and ?u1.0 = "world_loaded sampleDocx"
        and tempDir' = "''/tmp/doc-convert-aB3xYz''" and ?u2.0 = "world_loaded sampleDocx"
        and htmlContent = "''<p>Hello</p>''" and ?u3.0 = world_laid_out
        and tempHtmlPath = "''/tmp/doc-convert-aB3xYz/output.html''"
        and ?u4.0 = world_laid_out and ?e4.0 = launchError
        and originalFilename = "''sample.docx''" and opts = opts0 and fo = fo0] b1 b2 b3 b4
    by blast
  have k: "console (world_loaded notDocx) = []" "console world_laid_out = []"
    by (simp_all add: world_loaded_def world_laid_out_def)
  show ?thesis
    using a1 a2 b1 b2 b3 b4 c1 c2 unfolding k
    by (simp add: zipError_def launchError_def)
qed

section \<open>The check of the return type\<close>

text \<open>
  Claim C1, amended. A call of \<open>convertDocxToPdf\<close> whose return type is none of
  \<open>buffer\<close>, \<open>file\<close>, \<open>base64\<close> always fails. The return type is checked only after
  the pipeline has run: when every stage succeeds, the PDF has been written and read
  back, and the error thrown is the conversion failure whose message ends with
  \<open>Invalid returnType specified:\<close> and the bad value.
\<close>

theorem invalid_returnType_fails_after_io:
  assumes "returnType_of opts \<notin> {''buffer'', ''file'', ''base64''}"
  shows "(\<exists>w' e. convertDocxToPdf E fileBuffer originalFilename opts fo w = (w', Inl e)) \<and>
         (\<forall>w1 pdfBuffer outputPath.
            producePdf E fileBuffer originalFilename (outputDir_of E opts) (finalPageConfig_of fo)
              (preserveHeaders_of fo) w = (w1, Inr (pdfBuffer, outputPath)) \<longrightarrow>
            files w1 outputPath = Some pdfBuffer \<and>
            convertDocxToPdf E fileBuffer originalFilename opts fo w =
              (w1\<lparr>console := console w1 @
                  [ConsoleError ''Error converting DOCX to PDF:''
                     (Error (''Invalid returnType specified: '' @ returnType_of opts))]\<rparr>,
               Inl (Error (''Failed to convert DOCX document to PDF: '' @
                      ''Invalid returnType specified: '' @ returnType_of opts))))"
proof (intro conjI allI impI)
  obtain w' out where c: "convertDocxToPdf E fileBuffer originalFilename opts fo w = (w', out)"
    by (cases "convertDocxToPdf E fileBuffer originalFilename opts fo w")
  have "\<exists>e. out = Inl e"
  proof (cases out)
    case (Inl e)
    then show ?thesis by blast
  next
    case (Inr r)
    from c [unfolded Inr convertDocxToPdf_Inr] obtain w1 b p where
      "packageResult (returnType_of opts) b p w1 = (w', Inr r)" by blast
    from packageResult_Inr [OF this] assms show ?thesis by auto
  qed
  then show "\<exists>w' e. convertDocxToPdf E fileBuffer originalFilename opts fo w = (w', Inl e)"
    using c by blast
next
  fix w1 pdfBuffer outputPath
  assume p: "producePdf E fileBuffer originalFilename (outputDir_of E opts) (finalPageConfig_of fo)
              (preserveHeaders_of fo) w = (w1, Inr (pdfBuffer, outputPath))"
  show "files w1 outputPath = Some pdfBuffer" by (rule producePdf_Inr(2) [OF p])
  have "packageResult (returnType_of opts) pdfBuffer outputPath w1 =
          (w1, Inl (Error (''Invalid returnType specified: '' @ returnType_of opts)))"
    using assms by (simp add: packageResult_def throw_io_def)
  then have "convertDocxToPdf_try E fileBuffer originalFilename opts fo w =
          (w1, Inl (Error (''Invalid returnType specified: '' @ returnType_of opts)))"
    unfolding convertDocxToPdf_try_def using p by (simp add: bind_io_def)
  from convertDocxToPdf_catch [OF this]
  show "convertDocxToPdf E fileBuffer originalFilename opts fo w =
              (w1\<lparr>console := console w1 @
                  [ConsoleError ''Error converting DOCX to PDF:''
                     (Error (''Invalid returnType specified: '' @ returnType_of opts))]\<rparr>,
               Inl (Error (''Failed to convert DOCX document to PDF: '' @
                      ''Invalid returnType specified: '' @ returnType_of opts)))"
    by simp
qed

text \<open>On the sample document with return type \<open>xyz\<close>.\<close>

theorem invalid_returnType_fails_after_io_witness:
  "returnType_of (opts0\<lparr>returnType := Some ''xyz''\<rparr>) \<notin> {''buffer'', ''file'', ''base64''} \<and>
   producePdf env0 sampleDocx ''sample.docx'' (outputDir_of env0 (opts0\<lparr>returnType := Some ''xyz''\<rparr>))
     (finalPageConfig_of fo0) (preserveHeaders_of fo0) world0 =
     (fst (producePdf env0 sampleDocx ''sample.docx''
             (outputDir_of env0 (opts0\<lparr>returnType := Some ''xyz''\<rparr>))
             (finalPageConfig_of fo0) (preserveHeaders_of fo0) world0),
      Inr (samplePdf, ''/tmp/sample.pdf'')) \<and>
   snd (convertDocxToPdf env0 sampleDocx ''sample.docx'' (opts0\<lparr>returnType := Some ''xyz''\<rparr>) fo0
          world0) =
     Inl (Error ''Failed to convert DOCX document to PDF: Invalid returnType specified: xyz'')"
proof -
  have rt: "returnType_of (opts0\<lparr>returnType := Some ''xyz''\<rparr>) = ''xyz''"
    by (simp add: returnType_of_def)
  have a: "returnType_of (opts0\<lparr>returnType := Some ''xyz''\<rparr>) \<notin> {''buffer'', ''file'', ''base64''}"
    unfolding rt by simp
  have s: "snd (producePdf env0 sampleDocx ''sample.docx''
             (outputDir_of env0 (opts0\<lparr>returnType := Some ''xyz''\<rparr>))
             (finalPageConfig_of fo0) (preserveHeaders_of fo0) world0) =
           Inr (samplePdf, ''/tmp/sample.pdf'')"
    by (simp add: run_defs)
  have p: "producePdf env0 sampleDocx ''sample.docx''
             (outputDir_of env0 (opts0\<lparr>returnType := Some ''xyz''\<rparr>))
             (finalPageConfig_of fo0) (preserveHeaders_of fo0) world0 =
     (fst (producePdf env0 sampleDocx ''sample.docx''
             (outputDir_of env0 (opts0\<lparr>returnType := Some ''xyz''\<rparr>))
             (finalPageConfig_of fo0) (preserveHeaders_of fo0) world0),
      Inr (samplePdf, ''/tmp/sample.pdf''))"
    using s by (simp add: prod_eq_iff)
  from invalid_returnType_fails_after_io [OF a, of env0 sampleDocx "''sample.docx''" fo0 world0] p
  have "snd (convertDocxToPdf env0 sampleDocx ''sample.docx'' (opts0\<lparr>returnType := Some ''xyz''\<rparr>)
          fo0 world0) =
     Inl (Error (''Failed to convert DOCX document to PDF: '' @
            ''Invalid returnType specified: '' @ returnType_of (opts0\<lparr>returnType := Some ''xyz''\<rparr>)))"
    by (metis snd_conv)
  then show ?thesis using a p unfolding rt by simp
qed

text \<open>
  The claim as stated fails: with return type \<open>xyz\<close> on the sample document the call
  throws, but by then the temporary directory and the DOCX file have been written by the
  document loader and the PDF, absent before the call, is at the output path.
\<close>

theorem invalid_returnType_counterexample:
  "returnType (opts0\<lparr>returnType := Some ''xyz''\<rparr>) = Some ''xyz'' \<and>
   files world0 ''/tmp/sample.pdf'' = None \<and>
   files world0 ''/tmp/doc-convert-aB3xYz/input.docx'' = None \<and>
   dirs world0 = {''/tmp''} \<and>
   snd (loadDocument env0 sampleDocx world0) = Inr ''/tmp/doc-convert-aB3xYz'' \<and>
   files (fst (loadDocument env0 sampleDocx world0)) ''/tmp/doc-convert-aB3xYz/input.docx''
     = Some sampleDocx \<and>
   snd (convertDocxToPdf env0 sampleDocx ''sample.docx'' (opts0\<lparr>returnType := Some ''xyz''\<rparr>) fo0
          world0) =
     Inl (Error ''Failed to convert DOCX document to PDF: Invalid returnType specified: xyz'') \<and>
   files (fst (convertDocxToPdf env0 sampleDocx ''sample.docx'' (opts0\<lparr>returnType := Some ''xyz''\<rparr>)
            fo0 world0)) ''/tmp/sample.pdf'' = Some samplePdf"
  by (simp add: run_defs)

section \<open>The name of the output\<close>

text \<open>
  Claim C8, amended. A successful call with return type \<open>buffer\<close>, in an environment
  whose browser never renders an empty PDF, returns a non-empty buffer; and for every
  original filename that ends in \<open>.docx\<close>, in any letter case, the returned filename
  ends in \<open>.pdf\<close>.
\<close>

theorem buffer_result_nonempty_pdf_name:
  assumes "convertDocxToPdf E fileBuffer originalFilename opts fo w = (w', Inr r)"
    and "returnType_of opts = ''buffer''"
    and "\<forall>wk url po. page_pdf E wk url po \<noteq> Inr []"
  shows "(\<exists>b. buffer r = Some b \<and> b \<noteq> []) \<and>
         (\<forall>stem c1 c2 c3 c4.
            originalFilename = stem @ [CHR ''.'', c1, c2, c3, c4] \<and>
            c1 \<in> {CHR ''d'', CHR ''D''} \<and> c2 \<in> {CHR ''o'', CHR ''O''} \<and>
            c3 \<in> {CHR ''c'', CHR ''C''} \<and> c4 \<in> {CHR ''x'', CHR ''X''} \<longrightarrow>
            endsWith (filename r) ''.pdf'')"
proof -
  from assms(1) obtain w1 b p where
    pr: "producePdf E fileBuffer originalFilename (outputDir_of E opts) (finalPageConfig_of fo)
           (preserveHeaders_of fo) w = (w1, Inr (b, p))"
    and pk: "packageResult (returnType_of opts) b p w1 = (w', Inr r)"
    unfolding convertDocxToPdf_Inr by blast
  from packageResult_Inr [OF pk] assms(2)
  have r: "r = \<lparr>buffer = Some b, base64 = None, filename = path_basename p\<rparr>" by auto
  from producePdf_Inr(3) [OF pr] assms(3) have ne: "b \<noteq> []" by auto
  have p: "p = path_join (outputDir_of E opts) (replaceDocx originalFilename)"
    by (rule producePdf_Inr(1) [OF pr])
  have e: "endsWith (filename r) ''.pdf''"
    if "originalFilename = stem @ [CHR ''.'', c1, c2, c3, c4]"
      "c1 \<in> {CHR ''d'', CHR ''D''}" "c2 \<in> {CHR ''o'', CHR ''O''}"
      "c3 \<in> {CHR ''c'', CHR ''C''}" "c4 \<in> {CHR ''x'', CHR ''X''}" for stem c1 c2 c3 c4
    using replaceDocx_match [OF that(2-5), of stem] path_basename_join_pdf
    by (simp add: r p that(1))
  have A: "\<exists>b. buffer r = Some b \<and> b \<noteq> []" using r ne by simp
  show ?thesis
  proof (intro conjI allI impI)
    show "\<exists>b. buffer r = Some b \<and> b \<noteq> []" by (rule A)
  next
    fix stem c1 c2 c3 c4
    assume "originalFilename = stem @ [CHR ''.'', c1, c2, c3, c4] \<and>
            c1 \<in> {CHR ''d'', CHR ''D''} \<and> c2 \<in> {CHR ''o'', CHR ''O''} \<and>
            c3 \<in> {CHR ''c'', CHR ''C''} \<and> c4 \<in> {CHR ''x'', CHR ''X''}"
    then show "endsWith (filename r) ''.pdf''" using e [of stem c1 c2 c3 c4] by (elim conjE)
  qed
qed

text \<open>On the sample document under the name \<open>Report.DOCX\<close>.\<close>

theorem buffer_result_nonempty_pdf_name_witness:
  "convertDocxToPdf env0 sampleDocx ''Report.DOCX'' opts0 fo0 world0 =
     (fst (convertDocxToPdf env0 sampleDocx ''Report.DOCX'' opts0 fo0 world0),
      Inr \<lparr>buffer = Some samplePdf, base64 = None, filename = ''Report.pdf''\<rparr>) \<and>
   returnType_of opts0 = ''buffer'' \<and>
   (\<forall>wk url po. page_pdf env0 wk url po \<noteq> Inr []) \<and>
   samplePdf \<noteq> [] \<and> endsWith ''Report.pdf'' ''.pdf''"
proof -
  have s: "snd (convertDocxToPdf env0 sampleDocx ''Report.DOCX'' opts0 fo0 world0) =
           Inr \<lparr>buffer = Some samplePdf, base64 = None, filename = ''Report.pdf''\<rparr>"
    by (simp add: run_defs)
  have h: "convertDocxToPdf env0 sampleDocx ''Report.DOCX'' opts0 fo0 world0 =
     (fst (convertDocxToPdf env0 sampleDocx ''Report.DOCX'' opts0 fo0 world0),
      Inr \<lparr>buffer = Some samplePdf, base64 = None, filename = ''Report.pdf''\<rparr>)"
    using s by (simp add: prod_eq_iff)
  have rt: "returnType_of opts0 = ''buffer''" by (simp add: run_defs)
  have pp: "\<forall>wk url po. page_pdf env0 wk url po \<noteq> Inr []"
    by (simp add: env0_def samplePdf_def)
  note t = buffer_result_nonempty_pdf_name [OF h rt pp]
  from t [THEN conjunct1] have n: "samplePdf \<noteq> []" by simp
  from t [THEN conjunct2, rule_format, of "''Report''" "CHR ''D''" "CHR ''O''" "CHR ''C''" "CHR ''X''"]
  have e: "endsWith ''Report.pdf'' ''.pdf''" by simp
  show ?thesis using h rt pp n e by blast
qed

text \<open>
  The claim as stated, for every original filename, fails: the sample document under
  the name \<open>sample.txt\<close> is converted with success and the returned filename is
  \<open>sample.txt\<close>.
\<close>

theorem filename_without_pdf_counterexample:
  "returnType_of opts0 = ''buffer'' \<and>
   snd (convertDocxToPdf env0 sampleDocx ''sample.txt'' opts0 fo0 world0) =
     Inr \<lparr>buffer = Some samplePdf, base64 = None, filename = ''sample.txt''\<rparr> \<and>
   \<not> endsWith ''sample.txt'' ''.pdf''"
  by (simp add: run_defs endsWith_def)


text \<open>
  Claim C10, amended. After a successful call the PDF is at the output path, which is
  the output directory joined with the original filename in which a trailing \<open>.docx\<close>,
  in any letter case, is replaced by \<open>.pdf\<close>, and joined with the original filename
  unchanged when it has no such suffix. The returned filename is the output path for the
  return type \<open>file\<close> and the base name of the output path otherwise. When the original
  filename has no such suffix and is a plain file name (not empty, without a slash,
  neither \<open>.\<close> nor \<open>..\<close>), the base name of the output path is the original filename,
  so that it ends in \<open>.pdf\<close> exactly when the original filename does.
\<close>

theorem output_naming:
  assumes "convertDocxToPdf E fileBuffer originalFilename opts fo w = (w', Inr r)"
  shows "\<exists>outputPath.
           files w' outputPath \<noteq> None \<and>
           (returnType opts = Some ''file'' \<longrightarrow> filename r = outputPath) \<and>
           (returnType opts \<noteq> Some ''file'' \<longrightarrow> filename r = path_basename outputPath) \<and>
           (\<forall>stem c1 c2 c3 c4.
              originalFilename = stem @ [CHR ''.'', c1, c2, c3, c4] \<and>
              c1 \<in> {CHR ''d'', CHR ''D''} \<and> c2 \<in> {CHR ''o'', CHR ''O''} \<and>
              c3 \<in> {CHR ''c'', CHR ''C''} \<and> c4 \<in> {CHR ''x'', CHR ''X''} \<longrightarrow>
              outputPath = path_join (case outputDir opts of None \<Rightarrow> os_tmpdir E | Some d \<Rightarrow> d) (stem @ ''.pdf'')) \<and>
           (\<not> (\<exists>stem c1 c2 c3 c4.
              originalFilename = stem @ [CHR ''.'', c1, c2, c3, c4] \<and>
              c1 \<in> {CHR ''d'', CHR ''D''} \<and> c2 \<in> {CHR ''o'', CHR ''O''} \<and>
              c3 \<in> {CHR ''c'', CHR ''C''} \<and> c4 \<in> {CHR ''x'', CHR ''X''}) \<longrightarrow>
              outputPath = path_join (case outputDir opts of None \<Rightarrow> os_tmpdir E | Some d \<Rightarrow> d) originalFilename \<and>
              (originalFilename \<noteq> [] \<and> CHR ''/'' \<notin> set originalFilename \<and>
               originalFilename \<noteq> ''.'' \<and> originalFilename \<noteq> ''..'' \<longrightarrow>
                 path_basename outputPath = originalFilename \<and>
                 (endsWith (path_basename outputPath) ''.pdf'' \<longleftrightarrow>
                    endsWith originalFilename ''.pdf'')))"
proof -
  from assms obtain w1 b p where
    pr: "producePdf E fileBuffer originalFilename (outputDir_of E opts) (finalPageConfig_of fo)
           (preserveHeaders_of fo) w = (w1, Inr (b, p))"
    and pk: "packageResult (returnType_of opts) b p w1 = (w', Inr r)"
    unfolding convertDocxToPdf_Inr by blast
  note k = packageResult_Inr [OF pk]
  have rt: "returnType_of opts = ''file'' \<longleftrightarrow> returnType opts = Some ''file''"
    by (auto simp: returnType_of_def split: option.splits)
  have p: "p = path_join (case outputDir opts of None \<Rightarrow> os_tmpdir E | Some d \<Rightarrow> d) (replaceDocx originalFilename)"
    using producePdf_Inr(1) [OF pr] by (simp add: outputDir_of_def)
  have f: "files w' p \<noteq> None" using producePdf_Inr(2) [OF pr] k by simp
  have n1: "filename r = p" if "returnType opts = Some ''file''"
    using k that rt by auto
  have n2: "filename r = path_basename p" if "returnType opts \<noteq> Some ''file''"
    using k that rt by auto
  have m: "p = path_join (case outputDir opts of None \<Rightarrow> os_tmpdir E | Some d \<Rightarrow> d) (stem @ ''.pdf'')"
    if "originalFilename = stem @ [CHR ''.'', c1, c2, c3, c4]"
      "c1 \<in> {CHR ''d'', CHR ''D''}" "c2 \<in> {CHR ''o'', CHR ''O''}"
      "c3 \<in> {CHR ''c'', CHR ''C''}" "c4 \<in> {CHR ''x'', CHR ''X''}" for stem c1 c2 c3 c4
    using replaceDocx_match [OF that(2-5), of stem] by (simp add: p that(1))
  have o: "p = path_join (case outputDir opts of None \<Rightarrow> os_tmpdir E | Some d \<Rightarrow> d) originalFilename"
    if "\<not> (\<exists>stem c1 c2 c3 c4.
              originalFilename = stem @ [CHR ''.'', c1, c2, c3, c4] \<and>
              c1 \<in> {CHR ''d'', CHR ''D''} \<and> c2 \<in> {CHR ''o'', CHR ''O''} \<and>
              c3 \<in> {CHR ''c'', CHR ''C''} \<and> c4 \<in> {CHR ''x'', CHR ''X''})"
    using replaceDocx_other [OF that] by (simp add: p)
  have b: "path_basename (path_join (case outputDir opts of None \<Rightarrow> os_tmpdir E | Some d \<Rightarrow> d) originalFilename) = originalFilename"
    if "originalFilename \<noteq> [] \<and> CHR ''/'' \<notin> set originalFilename \<and>
        originalFilename \<noteq> ''.'' \<and> originalFilename \<noteq> ''..''"
    using that by (intro path_basename_join_plain) simp_all
  show ?thesis
  proof (intro exI [of _ p] conjI allI impI)
    show "files w' p \<noteq> None" by (rule f)
  next
    assume "returnType opts = Some ''file''"
    then show "filename r = p" by (rule n1)
  next
    assume "returnType opts \<noteq> Some ''file''"
    then show "filename r = path_basename p" by (rule n2)
  next
    fix stem c1 c2 c3 c4
    assume "originalFilename = stem @ [CHR ''.'', c1, c2, c3, c4] \<and>
              c1 \<in> {CHR ''d'', CHR ''D''} \<and> c2 \<in> {CHR ''o'', CHR ''O''} \<and>
              c3 \<in> {CHR ''c'', CHR ''C''} \<and> c4 \<in> {CHR ''x'', CHR ''X''}"
    then show "p = path_join (case outputDir opts of None \<Rightarrow> os_tmpdir E | Some d \<Rightarrow> d) (stem @ ''.pdf'')"
      using m [of stem c1 c2 c3 c4] by (elim conjE)
  next
    assume "\<not> (\<exists>stem c1 c2 c3 c4.
              originalFilename = stem @ [CHR ''.'', c1, c2, c3, c4] \<and>
              c1 \<in> {CHR ''d'', CHR ''D''} \<and> c2 \<in> {CHR ''o'', CHR ''O''} \<and>
              c3 \<in> {CHR ''c'', CHR ''C''} \<and> c4 \<in> {CHR ''x'', CHR ''X''})"
    then show "p = path_join (case outputDir opts of None \<Rightarrow> os_tmpdir E | Some d \<Rightarrow> d) originalFilename" by (rule o)
  next
    assume a: "\<not> (\<exists>stem c1 c2 c3 c4.
              originalFilename = stem @ [CHR ''.'', c1, c2, c3, c4] \<and>
              c1 \<in> {CHR ''d'', CHR ''D''} \<and> c2 \<in> {CHR ''o'', CHR ''O''} \<and>
              c3 \<in> {CHR ''c'', CHR ''C''} \<and> c4 \<in> {CHR ''x'', CHR ''X''})"
      and c: "originalFilename \<noteq> [] \<and> CHR ''/'' \<notin> set originalFilename \<and>
               originalFilename \<noteq> ''.'' \<and> originalFilename \<noteq> ''..''"
    show "path_basename p = originalFilename" using o [OF a] b [OF c] by simp
  next
    assume a: "\<not> (\<exists>stem c1 c2 c3 c4.
              originalFilename = stem @ [CHR ''.'', c1, c2, c3, c4] \<and>
              c1 \<in> {CHR ''d'', CHR ''D''} \<and> c2 \<in> {CHR ''o'', CHR ''O''} \<and>
              c3 \<in> {CHR ''c'', CHR ''C''} \<and> c4 \<in> {CHR ''x'', CHR ''X''})"
      and c: "originalFilename \<noteq> [] \<and> CHR ''/'' \<notin> set originalFilename \<and>
               originalFilename \<noteq> ''.'' \<and> originalFilename \<noteq> ''..''"
    show "endsWith (path_basename p) ''.pdf'' \<longleftrightarrow> endsWith originalFilename ''.pdf''"
      using o [OF a] b [OF c] by simp
  qed
qed

text \<open>
  On the sample document under the name \<open>Report.DOCX\<close>, written to \<open>out\<close>, and
  under the name \<open>notes.txt\<close>.
\<close>

theorem output_naming_witness:
  "convertDocxToPdf env0 sampleDocx ''Report.DOCX''
             \<lparr>returnType = Some ''file'', outputDir = Some ''out''\<rparr> fo0 world0 =
     (fst (convertDocxToPdf env0 sampleDocx ''Report.DOCX''
             \<lparr>returnType = Some ''file'', outputDir = Some ''out''\<rparr> fo0 world0),
      Inr \<lparr>buffer = None, base64 = None, filename = ''out/Report.pdf''\<rparr>) \<and>
   files (fst (convertDocxToPdf env0 sampleDocx ''Report.DOCX''
             \<lparr>returnType = Some ''file'', outputDir = Some ''out''\<rparr> fo0 world0))
     ''out/Report.pdf'' \<noteq> None \<and>
   ''out/Report.pdf'' = path_join ''out'' (''Report'' @ ''.pdf'') \<and>
   convertDocxToPdf env0 sampleDocx ''notes.txt'' opts0 fo0 world0 =
     (fst (convertDocxToPdf env0 sampleDocx ''notes.txt'' opts0 fo0 world0),
      Inr \<lparr>buffer = Some samplePdf, base64 = None, filename = ''notes.txt''\<rparr>) \<and>
   files (fst (convertDocxToPdf env0 sampleDocx ''notes.txt'' opts0 fo0 world0)) ''/tmp/notes.txt'' \<noteq> None \<and>
   path_basename ''/tmp/notes.txt'' = ''notes.txt''"
proof -
  have s: "snd (convertDocxToPdf env0 sampleDocx ''Report.DOCX''
             \<lparr>returnType = Some ''file'', outputDir = Some ''out''\<rparr> fo0 world0) =
           Inr \<lparr>buffer = None, base64 = None, filename = ''out/Report.pdf''\<rparr>"
    by (simp add: run_defs)
  have h: "convertDocxToPdf env0 sampleDocx ''Report.DOCX''
             \<lparr>returnType = Some ''file'', outputDir = Some ''out''\<rparr> fo0 world0 =
     (fst (convertDocxToPdf env0 sampleDocx ''Report.DOCX''
             \<lparr>returnType = Some ''file'', outputDir = Some ''out''\<rparr> fo0 world0),
      Inr \<lparr>buffer = None, base64 = None, filename = ''out/Report.pdf''\<rparr>)"
    using s by (simp add: prod_eq_iff)
  from output_naming [OF h] obtain outputPath where
    f: "files (fst (convertDocxToPdf env0 sampleDocx ''Report.DOCX''
             \<lparr>returnType = Some ''file'', outputDir = Some ''out''\<rparr> fo0 world0))
          outputPath \<noteq> None"
    and n: "returnType \<lparr>returnType = Some ''file'', outputDir = Some ''out''\<rparr> = Some ''file'' \<longrightarrow>
          filename \<lparr>buffer = None, base64 = None, filename = ''out/Report.pdf''\<rparr> = outputPath"
    by blast
  from n have "outputPath = ''out/Report.pdf''" by simp
  then have a: "files (fst (convertDocxToPdf env0 sampleDocx ''Report.DOCX''
             \<lparr>returnType = Some ''file'', outputDir = Some ''out''\<rparr> fo0 world0))
     ''out/Report.pdf'' \<noteq> None" using f by simp
  have b: "''out/Report.pdf'' = path_join ''out'' (''Report'' @ ''.pdf'')"
    by (simp add: run_defs)
  have t: "snd (convertDocxToPdf env0 sampleDocx ''notes.txt'' opts0 fo0 world0) =
           Inr \<lparr>buffer = Some samplePdf, base64 = None, filename = ''notes.txt''\<rparr>"
    by (simp add: run_defs)
  have g: "convertDocxToPdf env0 sampleDocx ''notes.txt'' opts0 fo0 world0 =
     (fst (convertDocxToPdf env0 sampleDocx ''notes.txt'' opts0 fo0 world0),
      Inr \<lparr>buffer = Some samplePdf, base64 = None, filename = ''notes.txt''\<rparr>)"
    using t by (simp add: prod_eq_iff)
  have nd: "\<not> (\<exists>stem c1 c2 c3 c4.
              ''notes.txt'' = stem @ [CHR ''.'', c1, c2, c3, c4] \<and>
              c1 \<in> {CHR ''d'', CHR ''D''} \<and> c2 \<in> {CHR ''o'', CHR ''O''} \<and>
              c3 \<in> {CHR ''c'', CHR ''C''} \<and> c4 \<in> {CHR ''x'', CHR ''X''})"
  proof
    assume "\<exists>stem c1 c2 c3 c4.
              ''notes.txt'' = stem @ [CHR ''.'', c1, c2, c3, c4] \<and>
              c1 \<in> {CHR ''d'', CHR ''D''} \<and> c2 \<in> {CHR ''o'', CHR ''O''} \<and>
              c3 \<in> {CHR ''c'', CHR ''C''} \<and> c4 \<in> {CHR ''x'', CHR ''X''}"
    then obtain stem c1 c2 c3 c4 where
      e: "''notes.txt'' = stem @ [CHR ''.'', c1, c2, c3, c4]"
      and x: "c4 \<in> {CHR ''x'', CHR ''X''}" by blast
    from e have "last ''notes.txt'' = last (stem @ [CHR ''.'', c1, c2, c3, c4])" by (rule arg_cong)
    then have "c4 = CHR ''t''" by simp
    then show False using x by simp
  qed
  have pl: "''notes.txt'' \<noteq> [] \<and> CHR ''/'' \<notin> set ''notes.txt'' \<and>
            ''notes.txt'' \<noteq> ''.'' \<and> ''notes.txt'' \<noteq> ''..''" by simp
  from output_naming [OF g] obtain q where
    f2: "files (fst (convertDocxToPdf env0 sampleDocx ''notes.txt'' opts0 fo0 world0)) q \<noteq> None"
    and o2: "q = path_join (case outputDir opts0 of None \<Rightarrow> os_tmpdir env0 | Some d \<Rightarrow> d)
                   ''notes.txt''"
    and b2: "path_basename q = ''notes.txt''"
    using nd pl by blast
  have q: "q = ''/tmp/notes.txt''" unfolding o2 by (simp add: run_defs)
  show ?thesis using h a b g f2 b2 unfolding q by blast
qed

text \<open>
  The claim as stated fails for a name that has no \<open>.docx\<close> suffix but ends in
  \<open>.pdf\<close>: under the name \<open>report.pdf\<close> the written file is \<open>/tmp/report.pdf\<close>,
  with a \<open>.pdf\<close> extension, and with the return type \<open>file\<close> the returned filename is
  that path, not the original filename.
\<close>

theorem pdf_name_kept_counterexample:
  "\<not> endsWith ''report.pdf'' ''.docx'' \<and>
   replaceDocx ''report.pdf'' = ''report.pdf'' \<and>
   snd (convertDocxToPdf env0 sampleDocx ''report.pdf'' opts0 fo0 world0) =
     Inr \<lparr>buffer = Some samplePdf, base64 = None, filename = ''report.pdf''\<rparr> \<and>
   files world0 ''/tmp/report.pdf'' = None \<and>
   files (fst (convertDocxToPdf env0 sampleDocx ''report.pdf'' opts0 fo0 world0)) ''/tmp/report.pdf''
     = Some samplePdf \<and>
   endsWith ''/tmp/report.pdf'' ''.pdf'' \<and>
   snd (convertDocxToPdf env0 sampleDocx ''report.pdf'' (opts0\<lparr>returnType := Some ''file''\<rparr>) fo0
          world0) =
     Inr \<lparr>buffer = None, base64 = None, filename = ''/tmp/report.pdf''\<rparr> \<and>
   ''/tmp/report.pdf'' \<noteq> ''report.pdf''"
  by (simp add: run_defs endsWith_def)

section \<open>The convenience entry point\<close>

text \<open>
  Claim C9. \<open>smartConvertDocxToPdf\<close> is the specified composition: the metadata
  extraction returns a guess, and the outcome is that of \<open>convertDocxToPdf\<close> on the same
  buffer, filename and options with the suggested format of the guess, margins of one
  inch and headers preserved when the guess has headers or footers.
\<close>

theorem smartConvert_is_convert_with_guess:
  "smartConvertDocxToPdf E fileBuffer originalFilename opts w =
     smartConvertDocxToPdf_spec E fileBuffer originalFilename opts w \<and>
   (\<exists>w1 guess. extractDocumentMetadata E fileBuffer w = (w1, Inr guess) \<and>
      smartConvertDocxToPdf E fileBuffer originalFilename opts w =
        convertDocxToPdf E fileBuffer originalFilename opts
          \<lparr>pageConfig = Some
             \<lparr>format = Some (suggestedFormat guess),
              margin = Some \<lparr>top = Some ''1in'', right = Some ''1in'', bottom = Some ''1in'',
                             left = Some ''1in''\<rparr>\<rparr>,
           preserveHeaders = Some (hasHeaders guess \<or> hasFooters guess)\<rparr> w1)"
proof -
  obtain w1 out where x: "extractDocumentMetadata E fileBuffer w = (w1, out)"
    by (cases "extractDocumentMetadata E fileBuffer w")
  have "\<exists>g. out = Inr g"
    using x by (cases "extractDocumentMetadata_try E fileBuffer w")
     (auto simp: extractDocumentMetadata_def try_catch_def bind_io_def console_error_def
        return_io_def split: sum.splits)
  then obtain g where g: "out = Inr g" by blast
  show ?thesis
    using x g
    by (simp add: smartConvertDocxToPdf_def smartConvertDocxToPdf_spec_def bind_io_def
          smartFormatOptions_def)
qed


text \<open>On the sample document.\<close>

theorem smartConvert_is_convert_with_guess_witness:
  "smartConvertDocxToPdf env0 sampleDocx ''sample.docx'' opts0 world0 =
     smartConvertDocxToPdf_spec env0 sampleDocx ''sample.docx'' opts0 world0 \<and>
   snd (smartConvertDocxToPdf env0 sampleDocx ''sample.docx'' opts0 world0) =
     Inr \<lparr>buffer = Some samplePdf, base64 = None, filename = ''sample.pdf''\<rparr>"
proof -
  have "snd (smartConvertDocxToPdf env0 sampleDocx ''sample.docx'' opts0 world0) =
     Inr \<lparr>buffer = Some samplePdf, base64 = None, filename = ''sample.pdf''\<rparr>"
    by (simp add: run_defs)
  then show ?thesis
    using smartConvert_is_convert_with_guess [of env0 sampleDocx "''sample.docx''" opts0 world0]
    by simp
qed

end
